theory Spec2Isabelle
  imports Main "HOL-Library.AList"
begin

section \<open>JavaScript \<open>Map\<close> objects\<close>

text \<open>
  The session manager keeps five \<open>Map\<close> objects keyed by the user id. A JavaScript
  \<open>Map\<close> iterates in insertion order, \<open>set\<close> on a key that is present keeps the
  key's position, and \<open>delete\<close> of an absent key does nothing. An association list
  with \<open>AList.update\<close> and \<open>AList.delete\<close> behaves the same way.
\<close>

type_synonym ('k, 'v) jsmap = "('k \<times> 'v) list"

definition map_get :: "('k, 'v) jsmap \<Rightarrow> 'k \<Rightarrow> 'v option" where
  "map_get m k = map_of m k"

definition map_has :: "('k, 'v) jsmap \<Rightarrow> 'k \<Rightarrow> bool" where
  "map_has m k = (map_of m k \<noteq> None)"

definition map_set :: "('k, 'v) jsmap \<Rightarrow> 'k \<Rightarrow> 'v \<Rightarrow> ('k, 'v) jsmap" where
  "map_set m k v = AList.update k v m"

definition map_delete :: "('k, 'v) jsmap \<Rightarrow> 'k \<Rightarrow> ('k, 'v) jsmap" where
  "map_delete m k = AList.delete k m"

definition map_size :: "('k, 'v) jsmap \<Rightarrow> nat" where
  "map_size m = length m"

section \<open>The session manager's state (src/utils/sessionManager.js)\<close>

text \<open>
  The status strings of the source. \<open>No_session\<close> is the sentinel that
  \<open>getSessionStatus\<close> returns for an id without a status record; \<open>Init_error\<close>
  only appears in the result of a failed \<open>createSession\<close>.
\<close>

datatype status =
    Initializing | Needs_scan | Ready | Authenticated
  | Auth_failure | Disconnected | No_session | Init_error

fun status_string :: "status \<Rightarrow> string" where
  "status_string Initializing = ''initializing''"
| "status_string Needs_scan = ''needs_scan''"
| "status_string Ready = ''ready''"
| "status_string Authenticated = ''authenticated''"
| "status_string Auth_failure = ''auth_failure''"
| "status_string Disconnected = ''disconnected''"
| "status_string No_session = ''no_session''"
| "status_string Init_error = ''init_error''"

text \<open>
  The client object of the external library. The manager only calls \<open>logout\<close>,
  \<open>destroy\<close> and \<open>initialize\<close> on it; \<open>handle\<close> is the object's identity and the
  two flags say whether \<open>logout()\<close> and \<open>destroy()\<close> reject when they are called.
\<close>

record client =
  handle :: nat
  logout_throws :: bool
  destroy_throws :: bool

text \<open>
  The directories that \<open>destroySession\<close> removes:
  \<open>.wwebjs_auth/session-<id>\<close> and \<open>.wwebjs_cache_<id>\<close>.
\<close>

datatype dir = SessionAuth string | SessionCache string

text \<open>
  The five maps of the constructor, and the part of the file system that the manager
  looks at (\<open>fs.existsSync\<close>) and removes (\<open>fs.rm\<close>). Time stamps are the integers
  that \<open>Date.now()\<close> returns; a QR code of \<open>null\<close> is \<open>None\<close>.
\<close>

record manager =
  sessions :: "(string, client) jsmap"
  qrCodes :: "(string, string option) jsmap"
  sessionStatus :: "(string, status) jsmap"
  lastActivity :: "(string, int) jsmap"
  sessionLocks :: "(string, int) jsmap"
  disk :: "dir list"

definition new_manager :: manager where
  "new_manager = \<lparr> sessions = [], qrCodes = [], sessionStatus = [],
                    lastActivity = [], sessionLocks = [], disk = [] \<rparr>"

subsection \<open>Lookups\<close>

definition getSession :: "manager \<Rightarrow> string \<Rightarrow> client option" where
  "getSession st userId = map_get (sessions st) userId"

text \<open>\<open>this.sessionStatus.get(userId) || 'no_session'\<close>: every status string is truthy.\<close>

definition getSessionStatus :: "manager \<Rightarrow> string \<Rightarrow> status" where
  "getSessionStatus st userId =
     (case map_get (sessionStatus st) userId of None \<Rightarrow> No_session | Some s \<Rightarrow> s)"

text \<open>\<open>undefined\<close> (no record) and \<open>null\<close> are both "no QR code" for the callers.\<close>

definition getQRCode :: "manager \<Rightarrow> string \<Rightarrow> string option" where
  "getQRCode st userId =
     (case map_get (qrCodes st) userId of None \<Rightarrow> None | Some q \<Rightarrow> q)"

definition updateActivity :: "manager \<Rightarrow> string \<Rightarrow> int \<Rightarrow> manager" where
  "updateActivity st userId now = st\<lparr>lastActivity := map_set (lastActivity st) userId now\<rparr>"

subsection \<open>Session locks\<close>

text \<open>\<open>acquireLock\<close> returns the boolean and the new state; \<open>now\<close> is \<open>Date.now()\<close>.\<close>

definition acquireLock :: "manager \<Rightarrow> string \<Rightarrow> int \<Rightarrow> bool \<times> manager" where
  "acquireLock st userId now =
     (if map_has (sessionLocks st) userId then (False, st)
      else (True, st\<lparr>sessionLocks := map_set (sessionLocks st) userId now\<rparr>))"

definition releaseLock :: "manager \<Rightarrow> string \<Rightarrow> manager" where
  "releaseLock st userId = st\<lparr>sessionLocks := map_delete (sessionLocks st) userId\<rparr>"

section \<open>Recipient numbers (src/index.js, the loop of POST /send-messages)\<close>

text \<open>\<open>/\D/g\<close> without the unicode flag matches every character outside \<open>0-9\<close>.\<close>

definition digits :: string where
  "digits = ''0123456789''"

definition is_digit :: "char \<Rightarrow> bool" where
  "is_digit c = (c \<in> set digits)"

definition strip_non_digits :: "string \<Rightarrow> string" where
  "strip_non_digits s = filter is_digit s"

definition starts_with :: "string \<Rightarrow> string \<Rightarrow> bool" where
  "starts_with s p = (take (length p) s = p)"

definition default_prefix :: string where
  "default_prefix = ''591''"

text \<open>
  \<^verbatim>\<open>
  let numberOnly = originalNumber.replace(/\D/g, '');
  if (!originalNumber.includes('+') && numberOnly.length === 8 && !numberOnly.startsWith('591')) {
      numberOnly = '591' + numberOnly;
  } else if (originalNumber.includes('+')) {
      numberOnly = originalNumber.replace(/\D/g, '');
  }
  \<close>
\<close>

definition normalize_number :: "string \<Rightarrow> string" where
  "normalize_number originalNumber =
     (let numberOnly = strip_non_digits originalNumber in
      if CHR ''+'' \<notin> set originalNumber \<and> length numberOnly = 8
           \<and> \<not> starts_with numberOnly default_prefix
      then default_prefix @ numberOnly
      else if CHR ''+'' \<in> set originalNumber then strip_non_digits originalNumber
      else numberOnly)"

section \<open>Destroying a session\<close>

text \<open>
  What the manager does to its collaborators, in the order of the calls: the calls on
  the client object, the log lines of the \<open>catch\<close> blocks, and \<open>fs.rm\<close>.
\<close>

datatype effect =
    ClientLogout nat | ClientDestroy nat
  | LogWarn string | LogError string
  | RemoveDir dir

text \<open>
  \<^verbatim>\<open>
  const client = this.sessions.get(userId);
  if (client) {
      try {
          const status = this.sessionStatus.get(userId);
          if (['ready', 'authenticated'].includes(status)) { await client.logout(); }
      } catch (error) { logger.warn('Error during logout', ...); }
      try { await client.destroy(); }
      catch (error) { logger.error('Error destroying client', ...); }
  }
  \<close>
  Both rejections are caught and logged, so nothing escapes this block.
\<close>

definition teardown_client :: "manager \<Rightarrow> string \<Rightarrow> effect list" where
  "teardown_client st userId =
     (case map_get (sessions st) userId of
        None \<Rightarrow> []
      | Some c \<Rightarrow>
          (if map_get (sessionStatus st) userId \<in> {Some Ready, Some Authenticated}
           then ClientLogout (handle c) #
                  (if logout_throws c then [LogWarn ''Error during logout''] else [])
           else [])
          @ ClientDestroy (handle c) #
              (if destroy_throws c then [LogError ''Error destroying client''] else []))"

text \<open>
  \<^verbatim>\<open>
  const removeDir = (dirPath, dirName) => {
      if (fs.existsSync(dirPath)) {
          fs.rm(dirPath, { recursive: true, force: true }, (err) => { ... log on err ... });
      }
  };
  \<close>
  \<open>fs.rm\<close> is the callback form and nothing waits for it: \<open>removeDir\<close> only
  issues the request, and the directory is still on disk when \<open>destroySession\<close>
  returns.
\<close>

definition removeDir :: "dir list \<Rightarrow> dir \<Rightarrow> effect list" where
  "removeDir d dirPath = (if dirPath \<in> set d then [RemoveDir dirPath] else [])"

definition destroySession :: "manager \<Rightarrow> string \<Rightarrow> manager \<times> effect list" where
  "destroySession st userId =
     (let e1 = teardown_client st userId;
          e2 = removeDir (disk st) (SessionAuth userId);
          e3 = removeDir (disk st) (SessionCache userId)
      in (\<lparr> sessions = map_delete (sessions st) userId,
            qrCodes = map_delete (qrCodes st) userId,
            sessionStatus = map_delete (sessionStatus st) userId,
            lastActivity = map_delete (lastActivity st) userId,
            sessionLocks = map_delete (sessionLocks st) userId,
            disk = disk st \<rparr>,
          e1 @ e2 @ e3))"

text \<open>
  The file system finishing one \<open>fs.rm\<close> request and running its callback, some time
  after \<open>destroySession\<close> has returned: on success the directory is gone, on failure
  the callback logs \<open>Error removing ... folder\<close> and the directory stays.
\<close>

fun dir_name :: "dir \<Rightarrow> string" where
  "dir_name (SessionAuth userId) = ''Session auth''"
| "dir_name (SessionCache userId) = ''Session cache''"

definition fs_rm_settles :: "manager \<Rightarrow> dir \<Rightarrow> bool \<Rightarrow> manager \<times> effect list" where
  "fs_rm_settles st dirPath ok =
     (if ok then (st\<lparr> disk := removeAll dirPath (disk st) \<rparr>, [])
      else (st, [LogError (''Error removing '' @ dir_name dirPath @ '' folder'')]))"

section \<open>Eviction and idle cleanup\<close>

text \<open>
  \<^verbatim>\<open>
  let oldestUserId = null;
  let oldestTime = Date.now();
  for (const [userId, lastActivity] of this.lastActivity) {
      if (lastActivity < oldestTime) { oldestTime = lastActivity; oldestUserId = userId; }
  }
  return oldestUserId;
  \<close>
\<close>

fun oldest_scan :: "(string \<times> int) list \<Rightarrow> string option \<Rightarrow> int \<Rightarrow> string option" where
  "oldest_scan [] oldestUserId oldestTime = oldestUserId"
| "oldest_scan ((userId, la) # rest) oldestUserId oldestTime =
     (if la < oldestTime then oldest_scan rest (Some userId) la
      else oldest_scan rest oldestUserId oldestTime)"

definition getOldestSession :: "manager \<Rightarrow> int \<Rightarrow> string option" where
  "getOldestSession st now = oldest_scan (lastActivity st) None now"

text \<open>
  The configuration values the manager reads. The repository's \<open>config.js\<close> has no
  \<open>timeoutMinutes\<close> under \<open>sessions\<close>; the two Render variants have it. A missing
  value is \<open>undefined\<close> in JavaScript, here \<open>None\<close>.
\<close>

record config =
  maxSessions :: int
  timeoutMinutes :: "int option"
  cleanupIntervalMinutes :: int

text \<open>The values each file gives when the environment sets none of the variables.\<close>

definition config_js :: config where
  "config_js = \<lparr> maxSessions = 50, timeoutMinutes = None, cleanupIntervalMinutes = 1440 \<rparr>"

definition config_render_free :: config where
  "config_render_free =
     \<lparr> maxSessions = 3, timeoutMinutes = Some 20, cleanupIntervalMinutes = 5 \<rparr>"

definition config_render_pro :: config where
  "config_render_pro =
     \<lparr> maxSessions = 50, timeoutMinutes = Some 60, cleanupIntervalMinutes = 15 \<rparr>"

text \<open>
  \<open>now - lastActivity > timeoutMs\<close> with \<open>timeoutMs = timeoutMinutes * 60 * 1000\<close>.
  With \<open>timeoutMinutes\<close> undefined, \<open>timeoutMs\<close> is \<open>NaN\<close> and the comparison is false.
\<close>

definition is_idle :: "config \<Rightarrow> int \<Rightarrow> int \<Rightarrow> bool" where
  "is_idle cfg now la =
     (case timeoutMinutes cfg of
        None \<Rightarrow> False
      | Some m \<Rightarrow> now - la > m * 60 * 1000)"

definition sessionsToRemove :: "config \<Rightarrow> manager \<Rightarrow> int \<Rightarrow> string list" where
  "sessionsToRemove cfg st now =
     map fst (filter (\<lambda>(userId, la). is_idle cfg now la) (lastActivity st))"

text \<open>\<open>for (const userId of sessionsToRemove) await this.destroySession(userId)\<close>\<close>

fun destroy_each :: "manager \<Rightarrow> string list \<Rightarrow> manager \<times> effect list" where
  "destroy_each st [] = (st, [])"
| "destroy_each st (userId # rest) =
     (let (st1, e1) = destroySession st userId;
          (st2, e2) = destroy_each st1 rest
      in (st2, e1 @ e2))"

definition cleanupInactiveSessions :: "config \<Rightarrow> manager \<Rightarrow> int \<Rightarrow> manager \<times> effect list" where
  "cleanupInactiveSessions cfg st now = destroy_each st (sessionsToRemove cfg st now)"

section \<open>Client events and session creation\<close>

text \<open>The five events that \<open>setupEventHandlers\<close> subscribes to.\<close>

datatype client_event =
    Qr string | ReadyEv | AuthenticatedEv | AuthFailureEv string | DisconnectedEv string

text \<open>
  One handler run; \<open>now\<close> is the \<open>Date.now()\<close> that \<open>updateActivity\<close> reads. The
  handlers of \<open>auth_failure\<close> and \<open>disconnected\<close> set the status and call
  \<open>destroySession\<close>; they do not call \<open>updateActivity\<close>.
\<close>

fun handle_event :: "manager \<Rightarrow> string \<Rightarrow> client_event \<Rightarrow> int \<Rightarrow> manager \<times> effect list" where
  "handle_event st userId (Qr qr) now =
     (updateActivity
        (st\<lparr> qrCodes := map_set (qrCodes st) userId (Some qr),
             sessionStatus := map_set (sessionStatus st) userId Needs_scan \<rparr>) userId now, [])"
| "handle_event st userId ReadyEv now =
     (updateActivity
        (st\<lparr> sessionStatus := map_set (sessionStatus st) userId Ready,
             qrCodes := map_set (qrCodes st) userId None \<rparr>) userId now, [])"
| "handle_event st userId AuthenticatedEv now =
     (updateActivity
        (st\<lparr> sessionStatus := map_set (sessionStatus st) userId Authenticated,
             qrCodes := map_set (qrCodes st) userId None \<rparr>) userId now, [])"
| "handle_event st userId (AuthFailureEv msg) now =
     (let (st1, e) = destroySession
                       (st\<lparr> sessionStatus := map_set (sessionStatus st) userId Auth_failure \<rparr>)
                       userId
      in (st1, LogError ''Authentication failed'' # e))"
| "handle_event st userId (DisconnectedEv reason) now =
     destroySession (st\<lparr> sessionStatus := map_set (sessionStatus st) userId Disconnected \<rparr>)
       userId"

fun handle_events :: "manager \<Rightarrow> string \<Rightarrow> (client_event \<times> int) list \<Rightarrow> manager \<times> effect list" where
  "handle_events st userId [] = (st, [])"
| "handle_events st userId ((ev, now) # rest) =
     (let (st1, e1) = handle_event st userId ev now;
          (st2, e2) = handle_events st1 userId rest
      in (st2, e1 @ e2))"

text \<open>
  What the external library does inside the \<open>try\<close> of \<open>createSession\<close>: either
  \<open>new Client(...)\<close> throws, or it returns a client object, and
  \<open>await client.initialize()\<close> lets the client emit events (each with the clock
  value its handler reads) and then resolves (\<open>None\<close>) or rejects with a message.
\<close>

datatype library_run =
    ConstructorThrows string
  | Initialize client "(client_event \<times> int) list" "string option"

text \<open>
  The object \<open>createSession\<close> returns: \<open>{success: true, message, status}\<close> or
  \<open>{success: false, error, status: 'init_error'}\<close>. The status of a success is
  \<open>this.sessionStatus.get(userId)\<close>, which may be \<open>undefined\<close>.
\<close>

datatype create_result =
    Success string "status option"
  | Failure string status

definition is_live :: "status option \<Rightarrow> bool" where
  "is_live s = (s \<in> {Some Ready, Some Initializing, Some Needs_scan, Some Authenticated})"

text \<open>
  The first block of \<open>createSession\<close>. \<open>if (oldestSession)\<close> is a truthiness test:
  \<open>null\<close> and the empty string do not pass.
\<close>

definition evict_if_full :: "config \<Rightarrow> manager \<Rightarrow> int \<Rightarrow> manager \<times> effect list" where
  "evict_if_full cfg st now =
     (if int (map_size (sessions st)) \<ge> maxSessions cfg
      then (case getOldestSession st now of
              None \<Rightarrow> (st, [])
            | Some oldestSession \<Rightarrow>
                if oldestSession \<noteq> [] then destroySession st oldestSession else (st, []))
      else (st, []))"

text \<open>
  \<open>now\<close> is the clock value read by \<open>getOldestSession\<close>, \<open>now'\<close> the one stored in
  \<open>lastActivity\<close> for the new session.
\<close>

definition createSession ::
  "config \<Rightarrow> manager \<Rightarrow> string \<Rightarrow> int \<Rightarrow> int \<Rightarrow> library_run \<Rightarrow> create_result \<times> manager \<times> effect list"
where
  "createSession cfg st userId now now' su =
     (let (st1, e1) = evict_if_full cfg st now
      in if map_has (sessions st1) userId \<and> is_live (map_get (sessionStatus st1) userId)
         then (Success (''Session already '' @ status_string (getSessionStatus st1 userId))
                       (map_get (sessionStatus st1) userId), st1, e1)
         else
           let (st2, e2) = (if map_has (sessions st1) userId then destroySession st1 userId
                            else (st1, []));
               st3 = st2\<lparr> sessionStatus := map_set (sessionStatus st2) userId Initializing,
                          qrCodes := map_set (qrCodes st2) userId None,
                          lastActivity := map_set (lastActivity st2) userId now' \<rparr>
           in (case su of
                 ConstructorThrows msg \<Rightarrow>
                   let (st4, e4) = destroySession st3 userId
                   in (Failure (''Failed to initialize session: '' @ msg) Init_error, st4,
                       e1 @ e2 @ LogError ''Error creating session'' # e4)
               | Initialize cl evs err \<Rightarrow>
                   let st4 = st3\<lparr> sessions := map_set (sessions st3) userId cl \<rparr>;
                       (st5, e5) = handle_events st4 userId evs
                   in (case err of
                         None \<Rightarrow>
                           (Success ''Session initialization finished.''
                                    (map_get (sessionStatus st5) userId), st5, e1 @ e2 @ e5)
                       | Some msg \<Rightarrow>
                           let (st6, e6) = destroySession st5 userId
                           in (Failure (''Failed to initialize session: '' @ msg) Init_error, st6,
                               e1 @ e2 @ e5 @ LogError ''Error creating session'' # e6))))"

text \<open>A run of \<open>createSession\<close> calls, each with its id, its two clock values and what
  the library does; the result is the state after the last call.\<close>

fun create_all :: "config \<Rightarrow> manager \<Rightarrow> (string \<times> int \<times> int \<times> library_run) list \<Rightarrow> manager" where
  "create_all cfg st [] = st"
| "create_all cfg st ((userId, now, now', su) # rest) =
     create_all cfg (fst (snd (createSession cfg st userId now now' su))) rest"

section \<open>Bulk dispatch (src/index.js, POST /send-messages)\<close>

text \<open>
  The values \<open>JSON.parse\<close> can return, and \<open>undefined\<close> for an index outside an
  array. \<open>JNum\<close> stands for a JSON number with an integral value; objects are
  opaque, since the handler never looks inside one.
\<close>

datatype jsval =
    JUndefined | JNull | JBool bool | JNum int | JStr string
  | JArr "jsval list" | JObj

fun truthy :: "jsval \<Rightarrow> bool" where
  "truthy JUndefined = False"
| "truthy JNull = False"
| "truthy (JBool b) = b"
| "truthy (JNum n) = (n \<noteq> 0)"
| "truthy (JStr s) = (s \<noteq> [])"
| "truthy (JArr xs) = True"
| "truthy JObj = True"

text \<open>\<open>a || b\<close>\<close>

definition js_or :: "jsval \<Rightarrow> jsval \<Rightarrow> jsval" where
  "js_or a b = (if truthy a then a else b)"

text \<open>\<open>xs[i]\<close> on an array\<close>

definition js_index :: "jsval list \<Rightarrow> nat \<Rightarrow> jsval" where
  "js_index xs i = (if i < length xs then xs ! i else JUndefined)"

text \<open>A call into the external client either returns or throws an error with a message.\<close>

datatype 'a outcome = Returns 'a | Throws string

text \<open>
  \<open>client.sendMessage(chatId, media, {caption: currentMessage || undefined})\<close> or
  \<open>client.sendMessage(chatId, currentMessage)\<close>
\<close>

datatype payload = MediaPayload jsval | TextPayload jsval

text \<open>
  The two methods of the client that the loop calls: \<open>getNumberId\<close> returns the
  serialized id or \<open>null\<close>.
\<close>

record wa_client =
  getNumberId :: "string \<Rightarrow> string option outcome"
  sendMessage :: "string \<Rightarrow> payload \<Rightarrow> unit outcome"

text \<open>
  The uploaded file of the request. \<open>readable\<close> is whether \<open>fs.readFileSync\<close>
  returns; \<open>unlink_throws\<close> is whether removing the file fails, which makes
  \<open>fs.unlinkSync\<close> throw and \<open>fs.unlink\<close> pass an error to its callback.
\<close>

record media_file =
  path :: string
  readable :: bool
  unlink_throws :: bool

text \<open>
  The request after multer: the form fields are strings, an absent \<open>userId\<close> or
  \<open>message\<close> is the empty string (both are falsy). \<open>numbers\<close> is what
  \<open>JSON.parse(numbersJson || '[]')\<close> gives, \<open>None\<close> when it throws; likewise
  \<open>mensajes\<close>.
\<close>

record request =
  req_userId :: string
  req_message :: string
  req_numbers :: "jsval option"
  req_mensajes :: "jsval option"
  req_mediaFile :: "media_file option"

text \<open>What the handler and its background task do, in order.\<close>

datatype action =
    UnlinkMedia | ReleaseLock | Respond nat | TouchActivity
  | Resolve string | Send string payload | LogFailure string
  | Uncaught

text \<open>The counters and the failure list of the background task.\<close>

record summary =
  enviados :: nat
  fallidos :: nat
  failedNumbers :: "(string \<times> string) list"

definition empty_summary :: summary where
  "empty_summary = \<lparr> enviados = 0, fallidos = 0, failedNumbers = [] \<rparr>"

definition not_valid_reason :: string where
  "not_valid_reason = ''Not a valid WhatsApp number''"

definition count_sent :: "summary \<Rightarrow> summary" where
  "count_sent acc = acc\<lparr> enviados := enviados acc + 1 \<rparr>"

text \<open>\<open>failedNumbers.push({number: originalNumber, reason}); fallidos++\<close>\<close>

definition count_failed :: "summary \<Rightarrow> string \<Rightarrow> string \<Rightarrow> summary" where
  "count_failed acc originalNumber reason =
     acc\<lparr> failedNumbers := failedNumbers acc @ [(originalNumber, reason)],
          fallidos := fallidos acc + 1 \<rparr>"

text \<open>\<open>err.message || 'Send failed'\<close>\<close>

definition error_reason :: "string \<Rightarrow> string" where
  "error_reason msg = (if msg = [] then ''Send failed'' else msg)"

text \<open>
  The inner \<open>try\<close>/\<open>catch\<close> of the loop for one recipient whose number is a string:
  the calls made on the client and the updated counters.
\<close>

definition attempt ::
  "wa_client \<Rightarrow> bool \<Rightarrow> jsval \<Rightarrow> string \<Rightarrow> summary \<Rightarrow> action list \<times> summary"
where
  "attempt cl media currentMessage originalNumber acc =
     (let numberOnly = normalize_number originalNumber in
      case getNumberId cl numberOnly of
        Throws msg \<Rightarrow>
          ([Resolve numberOnly, LogFailure msg],
           count_failed acc originalNumber (error_reason msg))
      | Returns None \<Rightarrow>
          ([Resolve numberOnly], count_failed acc originalNumber not_valid_reason)
      | Returns (Some chatId) \<Rightarrow>
          if media then
            (case sendMessage cl chatId (MediaPayload (js_or currentMessage JUndefined)) of
               Returns _ \<Rightarrow>
                 ([Resolve numberOnly,
                   Send chatId (MediaPayload (js_or currentMessage JUndefined))],
                  count_sent acc)
             | Throws msg \<Rightarrow>
                 ([Resolve numberOnly,
                   Send chatId (MediaPayload (js_or currentMessage JUndefined)),
                   LogFailure msg],
                  count_failed acc originalNumber (error_reason msg)))
          else if truthy currentMessage then
            (case sendMessage cl chatId (TextPayload currentMessage) of
               Returns _ \<Rightarrow>
                 ([Resolve numberOnly, Send chatId (TextPayload currentMessage)],
                  count_sent acc)
             | Throws msg \<Rightarrow>
                 ([Resolve numberOnly, Send chatId (TextPayload currentMessage),
                   LogFailure msg],
                  count_failed acc originalNumber (error_reason msg)))
          else ([Resolve numberOnly], count_sent acc))"

text \<open>
  The \<open>for\<close> loop from index \<open>i\<close> on. \<open>originalNumber.replace\<close> is outside the inner
  \<open>try\<close>: for an element that is not a string it throws a \<open>TypeError\<close>, which leaves
  the loop for the outer \<open>catch\<close>. The result says whether the loop ran to its end.
  The pause between two recipients (\<open>setTimeout\<close>) is not part of the model.
\<close>

fun send_loop ::
  "wa_client \<Rightarrow> bool \<Rightarrow> string \<Rightarrow> jsval list \<Rightarrow> nat \<Rightarrow> jsval list \<Rightarrow> summary
     \<Rightarrow> bool \<times> action list \<times> summary"
where
  "send_loop cl media message mensajesPorNumero i [] acc = (True, [], acc)"
| "send_loop cl media message mensajesPorNumero i (JStr originalNumber # rest) acc =
     (let currentMessage =
            js_or (js_index mensajesPorNumero i) (js_or (JStr message) (JStr []));
          (a1, acc1) = attempt cl media currentMessage originalNumber acc;
          (finished, a2, acc2) = send_loop cl media message mensajesPorNumero (Suc i) rest acc1
      in (finished, a1 @ a2, acc2))"
| "send_loop cl media message mensajesPorNumero i (v # rest) acc = (False, [], acc)"

text \<open>
  \<^verbatim>\<open>
  if (!Array.isArray(numbersRaw)) throw new Error("Invalid 'numbers' array.");
  if (!Array.isArray(mensajesPorNumero)) mensajesPorNumero = numbersRaw.map(() => message || "");
  if (mensajesPorNumero.length !== numbersRaw.length) {
      mensajesPorNumero = numbersRaw.map((_, index) => mensajesPorNumero[index] || message || "");
  }
  \<close>
  \<open>None\<close> is the \<open>catch\<close> branch.
\<close>

definition parse_lists :: "request \<Rightarrow> (jsval list \<times> jsval list) option" where
  "parse_lists req =
     (case (req_numbers req, req_mensajes req) of
        (Some (JArr numbersRaw), Some m) \<Rightarrow>
          (let m1 = (case m of
                       JArr ms \<Rightarrow> ms
                     | _ \<Rightarrow> map (\<lambda>_. js_or (JStr (req_message req)) (JStr [])) numbersRaw);
               m2 = (if length m1 \<noteq> length numbersRaw
                     then map (\<lambda>index. js_or (js_index m1 index)
                                          (js_or (JStr (req_message req)) (JStr [])))
                              [0..<length numbersRaw]
                     else m1)
           in Some (numbersRaw, m2))
      | _ \<Rightarrow> None)"

text \<open>
  \<open>if (mediaFile) fs.unlinkSync(mediaFile.path)\<close>: the synchronous removal on the
  rejection paths. It either removes the file or throws.
\<close>

definition unlinkSync_throws :: "request \<Rightarrow> bool" where
  "unlinkSync_throws req =
     (case req_mediaFile req of None \<Rightarrow> False | Some f \<Rightarrow> unlink_throws f)"

definition unlink_media :: "request \<Rightarrow> action list" where
  "unlink_media req = (if req_mediaFile req \<noteq> None then [UnlinkMedia] else [])"

text \<open>
  \<open>if (mediaFile) fs.unlink(mediaFile.path, (err) => { if (err) logger.error(...) })\<close>:
  the removal in \<open>finally\<close>. A failure reaches the callback, which logs it; nothing is
  thrown.
\<close>

definition unlink_async :: "request \<Rightarrow> action list" where
  "unlink_async req =
     (case req_mediaFile req of
        None \<Rightarrow> []
      | Some f \<Rightarrow>
          UnlinkMedia #
            (if unlink_throws f then [LogFailure ''Error deleting uploaded file''] else []))"

text \<open>
  What one request leaves behind: the HTTP status of the response (\<open>None\<close> when no
  response is sent), the actions in order, the manager's state, and the counters when
  the background task ran.
\<close>

record run =
  response :: "nat option"
  actions :: "action list"
  final :: manager
  report :: "(bool \<times> summary) option"

text \<open>
  \<open>fs.unlinkSync\<close> throws inside the \<open>async\<close> handler: no \<open>try\<close> encloses the
  call, so the statements after it do not run and no response is sent.
\<close>

definition uncaught :: "manager \<Rightarrow> run" where
  "uncaught st =
     \<lparr> response = None, actions = [UnlinkMedia, Uncaught], final = st, report = None \<rparr>"

text \<open>
  The handler followed by its background task. \<open>now\<close> is the clock value stored by
  \<open>acquireLock\<close>, \<open>now'\<close> the one stored by \<open>updateActivity\<close>. The background task
  is run to its end before anything else touches the manager. On each rejection path the
  source has \<open>if (mediaFile) fs.unlinkSync(mediaFile.path);\<close> first, then (after the lock
  was taken) \<open>sessionManager.releaseLock(userId);\<close>, then the response.
\<close>

definition send_messages :: "wa_client \<Rightarrow> manager \<Rightarrow> request \<Rightarrow> int \<Rightarrow> int \<Rightarrow> run" where
  "send_messages cl st req now now' =
     (let userId = req_userId req in
      if userId = [] then
        (if unlinkSync_throws req then uncaught st
         else \<lparr> response = Some 400, actions = unlink_media req @ [Respond 400], final = st,
                report = None \<rparr>)
      else if getSession st userId = None \<or> getSessionStatus st userId \<noteq> Ready then
        (if unlinkSync_throws req then uncaught st
         else \<lparr> response = Some 400, actions = unlink_media req @ [Respond 400], final = st,
                report = None \<rparr>)
      else
        case acquireLock st userId now of
          (False, _) \<Rightarrow>
            (if unlinkSync_throws req then uncaught st
             else \<lparr> response = Some 429, actions = unlink_media req @ [Respond 429],
                    final = st, report = None \<rparr>)
        | (True, st1) \<Rightarrow>
            (case parse_lists req of
               None \<Rightarrow>
                 (if unlinkSync_throws req then uncaught st1
                  else \<lparr> response = Some 400,
                         actions = unlink_media req @ [ReleaseLock, Respond 400],
                         final = releaseLock st1 userId, report = None \<rparr>)
             | Some (numbersRaw, mensajesPorNumero) \<Rightarrow>
                 if req_message req = [] \<and> req_mediaFile req = None then
                   (if unlinkSync_throws req then uncaught st1
                    else \<lparr> response = Some 400,
                           actions = unlink_media req @ [ReleaseLock, Respond 400],
                           final = releaseLock st1 userId, report = None \<rparr>)
                 else if numbersRaw = [] then
                   (if unlinkSync_throws req then uncaught st1
                    else \<lparr> response = Some 400,
                           actions = unlink_media req @ [ReleaseLock, Respond 400],
                           final = releaseLock st1 userId, report = None \<rparr>)
                 else
                   let media = (case req_mediaFile req of
                                  None \<Rightarrow> False | Some f \<Rightarrow> readable f);
                       a0 = (case req_mediaFile req of
                               None \<Rightarrow> []
                             | Some f \<Rightarrow>
                                 if readable f then []
                                 else [LogFailure ''Error processing media file'', UnlinkMedia]
                                      @ (if unlink_throws f
                                         then [LogFailure ''Error deleting failed media file'']
                                         else []));
                       st2 = updateActivity st1 userId now';
                       (finished, a1, acc) =
                         send_loop cl media (req_message req) mensajesPorNumero 0 numbersRaw
                           empty_summary;
                       a2 = (if finished then []
                             else [LogFailure ''Error in message sending process''])
                   in \<lparr> response = Some 200,
                        actions = a0 @ [Respond 200, TouchActivity] @ a1 @ a2
                                    @ unlink_async req @ [ReleaseLock],
                        final = releaseLock st2 userId,
                        report = Some (finished, acc) \<rparr>))"

text \<open>The calls of \<open>getNumberId\<close> among the actions: one per recipient attempted.\<close>

fun is_resolve :: "action \<Rightarrow> bool" where
  "is_resolve (Resolve n) = True"
| "is_resolve a = False"

section \<open>Concrete states and configurations\<close>

text \<open>Three client objects: two that behave, and one whose \<open>logout\<close> and
  \<open>destroy\<close> both reject.\<close>

definition client1 :: client where
  "client1 = \<lparr> handle = 1, logout_throws = False, destroy_throws = False \<rparr>"

definition client2 :: client where
  "client2 = \<lparr> handle = 2, logout_throws = False, destroy_throws = False \<rparr>"

definition failing_client :: client where
  "failing_client = \<lparr> handle = 3, logout_throws = True, destroy_throws = True \<rparr>"

text \<open>One session \<open>a\<close>, ready since time 0, with its directories on disk.\<close>

definition one_ready :: manager where
  "one_ready =
     \<lparr> sessions = [(''a'', client1)], qrCodes = [(''a'', None)],
       sessionStatus = [(''a'', Ready)], lastActivity = [(''a'', 0)],
       sessionLocks = [], disk = [SessionAuth ''a'', SessionCache ''a''] \<rparr>"

text \<open>
  A manager right after the process started: the maps are empty, and the directories
  that \<open>LocalAuth\<close> wrote for \<open>bob\<close> in an earlier run are still on disk.
\<close>

definition restarted_manager :: manager where
  "restarted_manager = new_manager\<lparr> disk := [SessionAuth ''bob'', SessionCache ''bob''] \<rparr>"

text \<open>\<open>MAX_SESSIONS=1\<close> in the environment of the free Render configuration.\<close>

definition single_config :: config where
  "single_config = config_render_free\<lparr> maxSessions := 1 \<rparr>"

text \<open>
  Three ready sessions. The client of \<open>old\<close>, the first one the sweep meets, rejects
  both \<open>logout\<close> and \<open>destroy\<close>.
\<close>

definition three_sessions :: manager where
  "three_sessions =
     \<lparr> sessions = [(''old'', failing_client), (''older'', client1), (''fresh'', client2)],
       qrCodes = [(''old'', None), (''older'', None), (''fresh'', None)],
       sessionStatus = [(''old'', Ready), (''older'', Ready), (''fresh'', Ready)],
       lastActivity = [(''old'', 0), (''older'', 10), (''fresh'', 1200000)],
       sessionLocks = [], disk = [] \<rparr>"

text \<open>
  A client for which every number is registered except \<open>59172222222\<close>, and every
  send succeeds.
\<close>

definition demo_client :: wa_client where
  "demo_client =
     \<lparr> getNumberId = (\<lambda>n. if n = ''59172222222'' then Returns None
                             else Returns (Some (n @ ''@c.us''))),
       sendMessage = (\<lambda>chatId p. Returns ()) \<rparr>"

text \<open>A request whose \<open>numbers\<close> field is not valid JSON, with an uploaded file.\<close>

definition bad_json_request :: request where
  "bad_json_request =
     \<lparr> req_userId = ''a'', req_message = ''hola'', req_numbers = None,
       req_mensajes = Some (JArr []),
       req_mediaFile = Some \<lparr> path = ''uploads/media-1'', readable = True,
                             unlink_throws = False \<rparr> \<rparr>"

text \<open>
  The same request when the uploaded file is gone from the upload directory before the
  handler removes it, so that \<open>fs.unlinkSync\<close> throws \<open>ENOENT\<close>.
\<close>

definition stuck_request :: request where
  "stuck_request =
     \<lparr> req_userId = ''a'', req_message = ''hola'', req_numbers = None,
       req_mensajes = Some (JArr []),
       req_mediaFile = Some \<lparr> path = ''uploads/media-1'', readable = True,
                             unlink_throws = True \<rparr> \<rparr>"

text \<open>A request whose second recipient is a JSON number, not a string, with an
  uploaded file.\<close>

definition number_request :: request where
  "number_request =
     \<lparr> req_userId = ''a'', req_message = ''hola'',
       req_numbers = Some (JArr [JStr ''71234567'', JNum 72222222]),
       req_mensajes = Some (JArr []),
       req_mediaFile = Some \<lparr> path = ''uploads/media-2'', readable = True,
                             unlink_throws = False \<rparr> \<rparr>"

text \<open>Three recipients and one shared message; the second number is the unregistered
  one.\<close>

definition three_request :: request where
  "three_request =
     \<lparr> req_userId = ''a'', req_message = ''hola'',
       req_numbers = Some (JArr [JStr ''71234567'', JStr ''7222-2222'', JStr ''+591 73333333'']),
       req_mensajes = Some (JArr []),
       req_mediaFile = None \<rparr>"

text \<open>A request without a message, whose uploaded file cannot be read.\<close>

definition silent_request :: request where
  "silent_request =
     \<lparr> req_userId = ''a'', req_message = [],
       req_numbers = Some (JArr [JStr ''71234567'']),
       req_mensajes = Some (JArr []),
       req_mediaFile = Some \<lparr> path = ''uploads/media-3'', readable = False,
                             unlink_throws = False \<rparr> \<rparr>"

section \<open>Facts about the maps\<close>

lemma map_has_set: "map_has (map_set m k v) k' = (k' = k \<or> map_has m k')"
  by (simp add: map_has_def map_set_def update_conv')

lemma map_has_delete: "map_has (map_delete m k) k' = (k' \<noteq> k \<and> map_has m k')"
  by (simp add: map_has_def map_delete_def delete_conv')

lemma map_get_set: "map_get (map_set m k v) k' = (if k' = k then Some v else map_get m k')"
  by (simp add: map_get_def map_set_def update_conv')

lemma map_get_delete: "map_get (map_delete m k) k' = (if k' = k then None else map_get m k')"
  by (simp add: map_get_def map_delete_def delete_conv')

lemma map_delete_idem: "map_delete (map_delete m k) k = map_delete m k"
  by (simp add: map_delete_def delete_idem)

section \<open>Lock coordinator\<close>

text \<open>
  Claim C5. \<open>acquireLock\<close> does not wait: when a lock token exists for the id it
  returns false and changes nothing; otherwise it stores the acquisition time and returns
  true, so a second call without a release in between returns false. \<open>releaseLock\<close>
  removes the token whether or not there is one, doing it twice is the same as doing it
  once, and after it \<open>acquireLock\<close> returns true again.
\<close>

theorem lock_exclusivity:
  "(map_has (sessionLocks st) userId \<longrightarrow> acquireLock st userId now = (False, st))
   \<and> (\<not> map_has (sessionLocks st) userId \<longrightarrow>
        fst (acquireLock st userId now)
        \<and> map_get (sessionLocks (snd (acquireLock st userId now))) userId = Some now
        \<and> acquireLock (snd (acquireLock st userId now)) userId now'
            = (False, snd (acquireLock st userId now)))
   \<and> \<not> map_has (sessionLocks (releaseLock st userId)) userId
   \<and> releaseLock (releaseLock st userId) userId = releaseLock st userId
   \<and> fst (acquireLock (releaseLock st userId) userId now'')"
  by (simp add: acquireLock_def releaseLock_def map_has_set map_has_delete map_get_set
      map_delete_idem)

theorem lock_exclusivity_witness:
  "\<not> map_has (sessionLocks new_manager) ''u1''
   \<and> fst (acquireLock new_manager ''u1'' 5)
   \<and> \<not> fst (acquireLock (snd (acquireLock new_manager ''u1'' 5)) ''u1'' 6)
   \<and> map_has (sessionLocks (snd (acquireLock new_manager ''u1'' 5))) ''u1''
   \<and> fst (acquireLock (releaseLock (snd (acquireLock new_manager ''u1'' 5)) ''u1'') ''u1'' 7)"
  using lock_exclusivity [of new_manager "''u1''" 5 6 7]
        lock_exclusivity [of "snd (acquireLock new_manager ''u1'' 5)" "''u1''" 6 6 7]
  by (simp add: new_manager_def map_has_def acquireLock_def map_set_def)

section \<open>Number normalization\<close>

lemma strip_fixed:
  assumes "set xs \<subseteq> set digits"
  shows "strip_non_digits xs = xs"
proof -
  have "\<forall>x \<in> set xs. is_digit x"
    unfolding is_digit_def using assms by auto
  then show ?thesis
    unfolding strip_non_digits_def by (rule filter_True)
qed

lemma strip_set: "set (strip_non_digits s) = set s \<inter> set digits"
  by (simp only: strip_non_digits_def set_filter is_digit_def Int_def)

lemma prefix_digits: "\<forall>c \<in> set default_prefix. is_digit c"
  by (simp add: default_prefix_def is_digit_def digits_def)

lemma strip_digits: "\<forall>c \<in> set (strip_non_digits s). is_digit c"
  by (simp add: strip_non_digits_def)

lemma normalize_cases:
  "(CHR ''+'' \<notin> set s \<and> length (strip_non_digits s) = 8
      \<and> \<not> starts_with (strip_non_digits s) default_prefix
     \<longrightarrow> normalize_number s = default_prefix @ strip_non_digits s)
   \<and> (CHR ''+'' \<in> set s \<longrightarrow> normalize_number s = strip_non_digits s)"
  by (simp add: normalize_number_def Let_def)

lemma normalize_shape:
  "normalize_number s = strip_non_digits s
   \<or> normalize_number s = default_prefix @ strip_non_digits s"
  by (simp add: normalize_number_def Let_def)

lemma normalize_digits: "\<forall>c \<in> set (normalize_number s). is_digit c"
  using normalize_shape [of s] prefix_digits strip_digits [of s]
  by (elim disjE) (simp_all add: ball_Un)

lemma normalize_else:
  "CHR ''+'' \<notin> set s
     \<and> (length (strip_non_digits s) \<noteq> 8 \<or> starts_with (strip_non_digits s) default_prefix)
   \<longrightarrow> normalize_number s = strip_non_digits s"
  by (auto simp: normalize_number_def Let_def)

lemma strip_filter: "strip_non_digits s = filter (\<lambda>c. c \<in> set digits) s"
proof -
  have "is_digit = (\<lambda>c. c \<in> set digits)"
    by (rule ext) (simp add: is_digit_def)
  then show ?thesis
    by (simp only: strip_non_digits_def)
qed

text \<open>
  Claim C6. For every raw recipient string, normalization keeps exactly the characters
  \<open>0\<close> to \<open>9\<close>, in their order. When the string has no \<open>+\<close> and its digits are
  eight and do not start with the default prefix \<open>591\<close>, the prefix is put in front of
  them; when the string has a \<open>+\<close>, and in every other case, the result is the digits
  alone.
\<close>

theorem number_normalization:
  "(CHR ''+'' \<notin> set s \<and> length (strip_non_digits s) = 8
      \<and> \<not> starts_with (strip_non_digits s) default_prefix
     \<longrightarrow> normalize_number s = default_prefix @ strip_non_digits s)
   \<and> (CHR ''+'' \<in> set s \<longrightarrow> normalize_number s = strip_non_digits s)
   \<and> (\<forall>c \<in> set (normalize_number s). is_digit c)
   \<and> set (strip_non_digits s) = set s \<inter> set digits
   \<and> (\<forall>xs. set xs \<subseteq> set digits \<longrightarrow> strip_non_digits xs = xs)
   \<and> (CHR ''+'' \<notin> set s
        \<and> (length (strip_non_digits s) \<noteq> 8 \<or> starts_with (strip_non_digits s) default_prefix)
      \<longrightarrow> normalize_number s = strip_non_digits s)
   \<and> strip_non_digits s = filter (\<lambda>c. c \<in> set digits) s
   \<and> digits = ''0123456789''
   \<and> default_prefix = ''591''
   \<and> starts_with (strip_non_digits s) default_prefix
        = (take 3 (strip_non_digits s) = default_prefix)"
proof -
  have 5: "\<forall>xs. set xs \<subseteq> set digits \<longrightarrow> strip_non_digits xs = xs"
    by (simp add: strip_fixed)
  have 10: "starts_with (strip_non_digits s) default_prefix
        = (take 3 (strip_non_digits s) = default_prefix)"
    by (simp add: starts_with_def default_prefix_def numeral_3_eq_3)
  show ?thesis
    by (intro conjI)
       (rule normalize_cases [THEN conjunct1] normalize_cases [THEN conjunct2] normalize_digits
          strip_set 5 normalize_else strip_filter digits_def default_prefix_def 10)+
qed

theorem number_normalization_witness:
  "CHR ''+'' \<notin> set ''7123-4567'' \<and> length (strip_non_digits ''7123-4567'') = 8
   \<and> \<not> starts_with (strip_non_digits ''7123-4567'') default_prefix
   \<and> normalize_number ''7123-4567'' = ''59171234567''
   \<and> CHR ''+'' \<in> set ''+54 9 1234-5678''
   \<and> normalize_number ''+54 9 1234-5678'' = ''54912345678''
   \<and> CHR ''+'' \<notin> set ''(591) 12345''
   \<and> starts_with (strip_non_digits ''(591) 12345'') default_prefix
   \<and> normalize_number ''(591) 12345'' = ''59112345''
   \<and> CHR ''+'' \<notin> set ''123 4567''
   \<and> length (strip_non_digits ''123 4567'') \<noteq> 8
   \<and> normalize_number ''123 4567'' = ''1234567''"
proof -
  have a: "strip_non_digits ''7123-4567'' = ''71234567''"
    by (simp add: strip_non_digits_def is_digit_def digits_def)
  have b: "strip_non_digits ''+54 9 1234-5678'' = ''54912345678''"
    by (simp add: strip_non_digits_def is_digit_def digits_def)
  have p: "strip_non_digits ''(591) 12345'' = ''59112345''"
    by (simp add: strip_non_digits_def is_digit_def digits_def)
  have q: "strip_non_digits ''123 4567'' = ''1234567''"
    by (simp add: strip_non_digits_def is_digit_def digits_def)
  have c1: "CHR ''+'' \<notin> set ''7123-4567''"
    by simp
  have c2: "CHR ''+'' \<in> set ''+54 9 1234-5678''"
    by simp
  have c3: "CHR ''+'' \<notin> set ''(591) 12345''"
    by simp
  have c4: "CHR ''+'' \<notin> set ''123 4567''"
    by simp
  have l: "length (strip_non_digits ''7123-4567'') = 8"
    by (simp only: a) simp
  have d: "\<not> starts_with (strip_non_digits ''7123-4567'') default_prefix"
    by (simp only: a) (simp add: starts_with_def default_prefix_def)
  have sp: "starts_with (strip_non_digits ''(591) 12345'') default_prefix"
    by (simp only: p) (simp add: starts_with_def default_prefix_def)
  have lq: "length (strip_non_digits ''123 4567'') \<noteq> 8"
    by (simp only: q) simp
  have "normalize_number ''7123-4567'' = default_prefix @ strip_non_digits ''7123-4567''"
    by (rule number_normalization [of "''7123-4567''", THEN conjunct1, rule_format])
       (intro conjI c1 l d)
  then have n1: "normalize_number ''7123-4567'' = ''59171234567''"
    by (simp only: a default_prefix_def) simp
  have "normalize_number ''+54 9 1234-5678'' = strip_non_digits ''+54 9 1234-5678''"
    by (rule number_normalization [of "''+54 9 1234-5678''", THEN conjunct2, THEN conjunct1,
          rule_format]) (rule c2)
  then have n2: "normalize_number ''+54 9 1234-5678'' = ''54912345678''"
    by (simp only: b)
  have "normalize_number ''(591) 12345'' = strip_non_digits ''(591) 12345''"
    by (rule number_normalization [of "''(591) 12345''", THEN conjunct2, THEN conjunct2,
          THEN conjunct2, THEN conjunct2, THEN conjunct2, THEN conjunct1, rule_format])
       (intro conjI c3 disjI2 sp)
  then have n3: "normalize_number ''(591) 12345'' = ''59112345''"
    by (simp only: p)
  have "normalize_number ''123 4567'' = strip_non_digits ''123 4567''"
    by (rule number_normalization [of "''123 4567''", THEN conjunct2, THEN conjunct2,
          THEN conjunct2, THEN conjunct2, THEN conjunct2, THEN conjunct1, rule_format])
       (intro conjI c4 disjI1 lq)
  then have n4: "normalize_number ''123 4567'' = ''1234567''"
    by (simp only: q)
  show ?thesis
    by (intro conjI) (rule c1 l d n1 c2 n2 c3 sp n3 c4 lq n4)+
qed

section \<open>Destroying a session twice\<close>

lemma map_get_None_delete: "map_get m k = None \<Longrightarrow> map_delete m k = m"
  by (simp add: map_get_def map_delete_def map_of_eq_None_iff)

lemma map_delete_same_iff: "map_delete m k = m \<longleftrightarrow> map_get m k = None"
proof
  assume "map_delete m k = m"
  then have "map_get m k = map_get (map_delete m k) k"
    by simp
  then show "map_get m k = None"
    by (simp add: map_get_delete)
qed (rule map_get_None_delete)

lemma removeDir_noop: "dirPath \<notin> set d \<Longrightarrow> removeDir d dirPath = []"
  by (simp add: removeDir_def)

lemma removeDir_empty_iff: "removeDir d dirPath = [] \<longleftrightarrow> dirPath \<notin> set d"
  by (simp add: removeDir_def)

lemma removeDir_effects: "set (removeDir d dirPath) \<subseteq> {RemoveDir dirPath}"
  by (auto simp: removeDir_def)

lemma destroySession_sessions: "sessions (fst (destroySession st u)) = map_delete (sessions st) u"
  and destroySession_qrCodes: "qrCodes (fst (destroySession st u)) = map_delete (qrCodes st) u"
  and destroySession_sessionStatus:
    "sessionStatus (fst (destroySession st u)) = map_delete (sessionStatus st) u"
  and destroySession_lastActivity:
    "lastActivity (fst (destroySession st u)) = map_delete (lastActivity st) u"
  and destroySession_sessionLocks:
    "sessionLocks (fst (destroySession st u)) = map_delete (sessionLocks st) u"
  and destroySession_disk: "disk (fst (destroySession st u)) = disk st"
  by (simp_all add: destroySession_def Let_def)

lemma destroySession_effects:
  "snd (destroySession st u) =
     teardown_client st u @ removeDir (disk st) (SessionAuth u)
       @ removeDir (disk st) (SessionCache u)"
  by (simp add: destroySession_def Let_def)

lemma teardown_unknown: "map_get (sessions st) u = None \<Longrightarrow> teardown_client st u = []"
  by (simp add: teardown_client_def)

lemma teardown_known:
  "map_get (sessions st) u = Some c \<Longrightarrow> ClientDestroy (handle c) \<in> set (teardown_client st u)"
  by (simp add: teardown_client_def)

lemma teardown_empty_iff: "teardown_client st u = [] \<longleftrightarrow> map_get (sessions st) u = None"
  by (cases "map_get (sessions st) u") (simp_all add: teardown_client_def)

lemma destroySession_purged:
  "getSession (fst (destroySession st u)) u = None"
  "getSessionStatus (fst (destroySession st u)) u = No_session"
  "getQRCode (fst (destroySession st u)) u = None"
  "map_get (lastActivity (fst (destroySession st u))) u = None"
  "\<not> map_has (sessionLocks (fst (destroySession st u))) u"
  by (simp_all add: getSession_def getSessionStatus_def getQRCode_def destroySession_sessions
      destroySession_qrCodes destroySession_sessionStatus destroySession_lastActivity
      destroySession_sessionLocks map_get_delete map_has_delete)

lemma destroySession_again:
  "destroySession (fst (destroySession st u)) u
     = (fst (destroySession st u),
        removeDir (disk st) (SessionAuth u) @ removeDir (disk st) (SessionCache u))"
proof -
  let ?s = "fst (destroySession st u)"
  have t: "teardown_client ?s u = []"
    using destroySession_purged(1) [of st u] by (simp add: teardown_unknown getSession_def)
  have "fst (destroySession ?s u) = ?s"
    by (simp add: destroySession_def Let_def map_delete_idem)
  moreover have "snd (destroySession ?s u)
      = removeDir (disk st) (SessionAuth u) @ removeDir (disk st) (SessionCache u)"
    by (simp add: destroySession_effects t destroySession_disk)
  ultimately show ?thesis
    by (simp add: prod_eq_iff)
qed

lemma removeDir_requests:
  "removeDir d (SessionAuth u) @ removeDir d (SessionCache u)
     = map RemoveDir (filter (\<lambda>x. x \<in> set d) [SessionAuth u, SessionCache u])"
  by (simp add: removeDir_def)

lemma destroySession_noop_iff:
  "destroySession st u = (st, []) \<longleftrightarrow>
     map_get (sessions st) u = None \<and> map_get (qrCodes st) u = None
     \<and> map_get (sessionStatus st) u = None \<and> map_get (lastActivity st) u = None
     \<and> map_get (sessionLocks st) u = None
     \<and> SessionAuth u \<notin> set (disk st) \<and> SessionCache u \<notin> set (disk st)"
proof
  assume eq: "destroySession st u = (st, [])"
  then have st: "fst (destroySession st u) = st" and e: "snd (destroySession st u) = []"
    by simp_all
  from e have "teardown_client st u = []" "removeDir (disk st) (SessionAuth u) = []"
    "removeDir (disk st) (SessionCache u) = []"
    by (simp_all add: destroySession_effects)
  then have 1: "map_get (sessions st) u = None" "SessionAuth u \<notin> set (disk st)"
    "SessionCache u \<notin> set (disk st)"
    by (simp_all add: teardown_empty_iff removeDir_empty_iff)
  have "map_delete (qrCodes st) u = qrCodes st"
    using destroySession_qrCodes [of st u] by (simp only: st)
  moreover have "map_delete (sessionStatus st) u = sessionStatus st"
    using destroySession_sessionStatus [of st u] by (simp only: st)
  moreover have "map_delete (lastActivity st) u = lastActivity st"
    using destroySession_lastActivity [of st u] by (simp only: st)
  moreover have "map_delete (sessionLocks st) u = sessionLocks st"
    using destroySession_sessionLocks [of st u] by (simp only: st)
  ultimately show "map_get (sessions st) u = None \<and> map_get (qrCodes st) u = None
     \<and> map_get (sessionStatus st) u = None \<and> map_get (lastActivity st) u = None
     \<and> map_get (sessionLocks st) u = None
     \<and> SessionAuth u \<notin> set (disk st) \<and> SessionCache u \<notin> set (disk st)"
    using 1 by (simp add: map_delete_same_iff)
next
  assume "map_get (sessions st) u = None \<and> map_get (qrCodes st) u = None
     \<and> map_get (sessionStatus st) u = None \<and> map_get (lastActivity st) u = None
     \<and> map_get (sessionLocks st) u = None
     \<and> SessionAuth u \<notin> set (disk st) \<and> SessionCache u \<notin> set (disk st)"
  then show "destroySession st u = (st, [])"
    by (simp add: destroySession_def Let_def removeDir_noop teardown_unknown map_get_None_delete)
qed

lemma destroySession_settled:
  "destroySession
     (fst (fs_rm_settles (fst (fs_rm_settles (fst (destroySession st u)) (SessionAuth u) True))
            (SessionCache u) True)) u
   = (fst (fs_rm_settles (fst (fs_rm_settles (fst (destroySession st u)) (SessionAuth u) True))
            (SessionCache u) True), [])"
proof -
  let ?s = "fst (destroySession st u)"
  have t: "fst (fs_rm_settles (fst (fs_rm_settles ?s (SessionAuth u) True)) (SessionCache u) True)
      = ?s\<lparr> disk := removeAll (SessionCache u) (removeAll (SessionAuth u) (disk ?s)) \<rparr>"
    by (simp add: fs_rm_settles_def)
  show ?thesis
    unfolding t
    by (rule destroySession_noop_iff [THEN iffD2])
       (simp add: destroySession_sessions destroySession_qrCodes destroySession_sessionStatus
          destroySession_lastActivity destroySession_sessionLocks map_get_delete)
qed

lemma destroySession_unknown_client_calls:
  assumes "map_get (sessions st) u = None"
  shows "sessions (fst (destroySession st u)) = sessions st"
    and "ClientLogout h \<notin> set (snd (destroySession st u))"
    and "ClientDestroy h \<notin> set (snd (destroySession st u))"
  using assms removeDir_effects [of "disk st" "SessionAuth u"]
    removeDir_effects [of "disk st" "SessionCache u"]
  by (auto simp: destroySession_sessions map_get_None_delete destroySession_effects
      teardown_unknown)

text \<open>
  Claim C9 as stated fails in two places. After a restart no session of \<open>bob\<close> is known
  and \<open>getSessionStatus\<close> gives \<open>no_session\<close>, yet \<open>destroySession\<close> asks the file
  system to remove the two directories of \<open>bob\<close> that are on disk: on an unknown id the
  call is not a no-op. And a second \<open>destroySession\<close> for \<open>a\<close> right after the first
  finds the directories of \<open>a\<close> still on disk, because the first \<open>fs.rm\<close> was not
  awaited, and asks for their removal again: the second call has a side effect.
\<close>

theorem destroySession_counterexample:
  "getSession restarted_manager ''bob'' = None
   \<and> getSessionStatus restarted_manager ''bob'' = No_session
   \<and> snd (destroySession restarted_manager ''bob'')
       = [RemoveDir (SessionAuth ''bob''), RemoveDir (SessionCache ''bob'')]
   \<and> destroySession restarted_manager ''bob'' \<noteq> (restarted_manager, [])
   \<and> snd (destroySession (fst (destroySession one_ready ''a'')) ''a'')
       = [RemoveDir (SessionAuth ''a''), RemoveDir (SessionCache ''a'')]"
  by (simp add: restarted_manager_def new_manager_def one_ready_def getSession_def
      getSessionStatus_def map_get_def destroySession_def teardown_client_def removeDir_def
      map_delete_def)

text \<open>
  Claim C9, as the code has it. A second \<open>destroySession\<close> right after the first leaves
  the state as the first left it, with status \<open>no_session\<close> and the session, QR,
  activity and lock records of the id gone; it calls no client and writes no log line,
  and all it does is ask again for the removal of those of the id's two directories
  that were on disk, the first removal not being awaited. Once both removals have
  completed, a further call does nothing. For an id without a session the call leaves
  the session map as it is and calls no client; it is a no-op exactly when the id has no
  QR, status, activity or lock record and neither directory is on disk.
\<close>

theorem destroySession_idempotent:
  "fst (destroySession (fst (destroySession st userId)) userId) = fst (destroySession st userId)
   \<and> snd (destroySession (fst (destroySession st userId)) userId)
       = map RemoveDir (filter (\<lambda>d. d \<in> set (disk st)) [SessionAuth userId, SessionCache userId])
   \<and> getSessionStatus (fst (destroySession st userId)) userId = No_session
   \<and> getSession (fst (destroySession st userId)) userId = None
   \<and> getQRCode (fst (destroySession st userId)) userId = None
   \<and> map_get (lastActivity (fst (destroySession st userId))) userId = None
   \<and> \<not> map_has (sessionLocks (fst (destroySession st userId))) userId
   \<and> snd (destroySession
             (fst (fs_rm_settles
                     (fst (fs_rm_settles (fst (destroySession st userId))
                             (SessionAuth userId) True))
                     (SessionCache userId) True)) userId) = []
   \<and> (getSession st userId = None \<longrightarrow>
         sessions (fst (destroySession st userId)) = sessions st
         \<and> (\<forall>h. ClientLogout h \<notin> set (snd (destroySession st userId))
                \<and> ClientDestroy h \<notin> set (snd (destroySession st userId))))
   \<and> (destroySession st userId = (st, []) \<longleftrightarrow>
         getSession st userId = None \<and> map_get (qrCodes st) userId = None
         \<and> map_get (sessionStatus st) userId = None \<and> map_get (lastActivity st) userId = None
         \<and> map_get (sessionLocks st) userId = None
         \<and> SessionAuth userId \<notin> set (disk st) \<and> SessionCache userId \<notin> set (disk st))"
  using destroySession_again [of st userId] destroySession_purged [where st = st and u = userId]
    destroySession_unknown_client_calls [where st = st and u = userId]
    destroySession_noop_iff [of st userId] destroySession_settled [of st userId]
    removeDir_requests [of "disk st" userId]
  by (simp add: getSession_def)

theorem destroySession_idempotent_witness:
  "getSession one_ready ''a'' = Some client1
   \<and> getSessionStatus one_ready ''a'' = Ready
   \<and> snd (destroySession one_ready ''a'')
        = [ClientLogout 1, ClientDestroy 1,
           RemoveDir (SessionAuth ''a''), RemoveDir (SessionCache ''a'')]
   \<and> fst (destroySession one_ready ''a'')
        = new_manager\<lparr> disk := [SessionAuth ''a'', SessionCache ''a''] \<rparr>
   \<and> fst (destroySession (fst (destroySession one_ready ''a'')) ''a'')
        = fst (destroySession one_ready ''a'')
   \<and> getSessionStatus (fst (destroySession one_ready ''a'')) ''a'' = No_session
   \<and> getSession new_manager ''zed'' = None
   \<and> destroySession new_manager ''zed'' = (new_manager, [])
   \<and> getSession restarted_manager ''bob'' = None
   \<and> sessions (fst (destroySession restarted_manager ''bob'')) = sessions restarted_manager"
proof -
  have 1: "getSession one_ready ''a'' = Some client1"
    "getSessionStatus one_ready ''a'' = Ready"
    "snd (destroySession one_ready ''a'')
        = [ClientLogout 1, ClientDestroy 1,
           RemoveDir (SessionAuth ''a''), RemoveDir (SessionCache ''a'')]"
    "fst (destroySession one_ready ''a'')
        = new_manager\<lparr> disk := [SessionAuth ''a'', SessionCache ''a''] \<rparr>"
    by (simp_all add: one_ready_def new_manager_def client1_def getSession_def
        getSessionStatus_def map_get_def destroySession_def teardown_client_def removeDir_def
        map_delete_def)
  have z: "getSession new_manager ''zed'' = None \<and> map_get (qrCodes new_manager) ''zed'' = None
         \<and> map_get (sessionStatus new_manager) ''zed'' = None
         \<and> map_get (lastActivity new_manager) ''zed'' = None
         \<and> map_get (sessionLocks new_manager) ''zed'' = None
         \<and> SessionAuth ''zed'' \<notin> set (disk new_manager)
         \<and> SessionCache ''zed'' \<notin> set (disk new_manager)"
    by (simp add: new_manager_def getSession_def map_get_def)
  have b: "getSession restarted_manager ''bob'' = None"
    by (simp add: restarted_manager_def new_manager_def getSession_def map_get_def)
  note th = destroySession_idempotent
  have 2: "fst (destroySession (fst (destroySession one_ready ''a'')) ''a'')
        = fst (destroySession one_ready ''a'')"
    by (rule th [of one_ready "''a''", THEN conjunct1])
  have 3: "getSessionStatus (fst (destroySession one_ready ''a'')) ''a'' = No_session"
    by (rule th [of one_ready "''a''", THEN conjunct2, THEN conjunct2, THEN conjunct1])
  have 4: "destroySession new_manager ''zed'' = (new_manager, [])"
    using th [of new_manager "''zed''", THEN conjunct2, THEN conjunct2, THEN conjunct2,
        THEN conjunct2, THEN conjunct2, THEN conjunct2, THEN conjunct2, THEN conjunct2,
        THEN conjunct2] z
    by (rule iffD2)
  have 5: "sessions (fst (destroySession restarted_manager ''bob'')) = sessions restarted_manager"
    using th [of restarted_manager "''bob''", THEN conjunct2, THEN conjunct2, THEN conjunct2,
        THEN conjunct2, THEN conjunct2, THEN conjunct2, THEN conjunct2, THEN conjunct2,
        THEN conjunct1] b
    by simp
  show ?thesis
    by (intro conjI) (rule 1 2 3 z [THEN conjunct1] 4 b 5)+
qed

section \<open>Status transitions\<close>

lemma handle_event_auth_failure:
  "fst (handle_event st u (AuthFailureEv msg) now) =
     fst (destroySession (st\<lparr> sessionStatus := map_set (sessionStatus st) u Auth_failure \<rparr>) u)"
  "set (snd (destroySession (st\<lparr> sessionStatus := map_set (sessionStatus st) u Auth_failure \<rparr>) u))
     \<subseteq> set (snd (handle_event st u (AuthFailureEv msg) now))"
  by (auto split: prod.splits)

lemma destroySession_calls_destroy:
  "map_get (sessions st) u = Some c \<Longrightarrow> ClientDestroy (handle c) \<in> set (snd (destroySession st u))"
  by (simp add: destroySession_effects teardown_known)

text \<open>
  Claim C7 as stated fails for the two terminal events: with session \<open>a\<close> ready
  and last active at time 0, an \<open>auth_failure\<close> or \<open>disconnected\<close> event handled at
  time 99 does not leave 99 as the last activity of \<open>a\<close>; the handlers never call
  \<open>updateActivity\<close>.
\<close>

theorem transition_counterexample:
  "getSessionStatus one_ready ''a'' = Ready
   \<and> map_get (lastActivity one_ready) ''a'' = Some 0
   \<and> map_get (lastActivity (fst (handle_event one_ready ''a'' (AuthFailureEv ''x'') 99))) ''a''
        \<noteq> Some 99
   \<and> map_get (lastActivity (fst (handle_event one_ready ''a'' (DisconnectedEv ''x'') 99))) ''a''
        \<noteq> Some 99"
  by (simp add: one_ready_def getSessionStatus_def map_get_def destroySession_def
      teardown_client_def removeDir_def map_delete_def map_set_def client1_def)

text \<open>
  Claim C7, as the code has it. The handlers of \<open>qr\<close>, \<open>ready\<close> and
  \<open>authenticated\<close> set the status and store the current time as the last activity.
  The handlers of \<open>auth_failure\<close> and \<open>disconnected\<close> do not touch the last
  activity; they call \<open>destroySession\<close> at once: the client of the session, when there
  is one, gets its \<open>destroy\<close> call, and afterwards the session, status, QR,
  activity and lock records of the id are gone.
\<close>

theorem status_transitions:
  "map_get (lastActivity (fst (handle_event st userId (Qr qr) now))) userId = Some now
   \<and> getSessionStatus (fst (handle_event st userId (Qr qr) now)) userId = Needs_scan
   \<and> map_get (lastActivity (fst (handle_event st userId ReadyEv now))) userId = Some now
   \<and> getSessionStatus (fst (handle_event st userId ReadyEv now)) userId = Ready
   \<and> map_get (lastActivity (fst (handle_event st userId AuthenticatedEv now))) userId = Some now
   \<and> getSessionStatus (fst (handle_event st userId AuthenticatedEv now)) userId = Authenticated
   \<and> (\<forall>ev \<in> {AuthFailureEv msg, DisconnectedEv msg}.
         map_get (lastActivity (fst (handle_event st userId ev now))) userId = None
         \<and> getSessionStatus (fst (handle_event st userId ev now)) userId = No_session
         \<and> getSession (fst (handle_event st userId ev now)) userId = None
         \<and> getQRCode (fst (handle_event st userId ev now)) userId = None
         \<and> \<not> map_has (sessionLocks (fst (handle_event st userId ev now))) userId
         \<and> (\<forall>c. getSession st userId = Some c
                \<longrightarrow> ClientDestroy (handle c) \<in> set (snd (handle_event st userId ev now))))"
proof -
  let ?f = "st\<lparr> sessionStatus := map_set (sessionStatus st) userId Auth_failure \<rparr>"
  let ?d = "st\<lparr> sessionStatus := map_set (sessionStatus st) userId Disconnected \<rparr>"
  have live:
    "map_get (lastActivity (fst (handle_event st userId (Qr qr) now))) userId = Some now"
    "getSessionStatus (fst (handle_event st userId (Qr qr) now)) userId = Needs_scan"
    "map_get (lastActivity (fst (handle_event st userId ReadyEv now))) userId = Some now"
    "getSessionStatus (fst (handle_event st userId ReadyEv now)) userId = Ready"
    "map_get (lastActivity (fst (handle_event st userId AuthenticatedEv now))) userId = Some now"
    "getSessionStatus (fst (handle_event st userId AuthenticatedEv now)) userId = Authenticated"
    by (simp_all add: updateActivity_def map_get_set getSessionStatus_def)
  have f: "fst (handle_event st userId (AuthFailureEv msg) now) = fst (destroySession ?f userId)"
    by (rule handle_event_auth_failure)
  have d: "handle_event st userId (DisconnectedEv msg) now = destroySession ?d userId"
    by simp
  have cf: "\<forall>c. getSession st userId = Some c
      \<longrightarrow> ClientDestroy (handle c) \<in> set (snd (handle_event st userId (AuthFailureEv msg) now))"
    using handle_event_auth_failure(2) [of st userId msg now]
      destroySession_calls_destroy [of ?f userId]
    by (auto simp: getSession_def)
  have cd: "\<forall>c. getSession st userId = Some c
      \<longrightarrow> ClientDestroy (handle c) \<in> set (snd (handle_event st userId (DisconnectedEv msg) now))"
    using destroySession_calls_destroy [of ?d userId]
    by (simp add: getSession_def)
  have pf: "map_get (lastActivity (fst (handle_event st userId (AuthFailureEv msg) now))) userId = None
         \<and> getSessionStatus (fst (handle_event st userId (AuthFailureEv msg) now)) userId = No_session
         \<and> getSession (fst (handle_event st userId (AuthFailureEv msg) now)) userId = None
         \<and> getQRCode (fst (handle_event st userId (AuthFailureEv msg) now)) userId = None
         \<and> \<not> map_has (sessionLocks (fst (handle_event st userId (AuthFailureEv msg) now))) userId"
    unfolding f using destroySession_purged [where st = ?f and u = userId] by simp
  have pd: "map_get (lastActivity (fst (handle_event st userId (DisconnectedEv msg) now))) userId = None
         \<and> getSessionStatus (fst (handle_event st userId (DisconnectedEv msg) now)) userId = No_session
         \<and> getSession (fst (handle_event st userId (DisconnectedEv msg) now)) userId = None
         \<and> getQRCode (fst (handle_event st userId (DisconnectedEv msg) now)) userId = None
         \<and> \<not> map_has (sessionLocks (fst (handle_event st userId (DisconnectedEv msg) now))) userId"
    unfolding d using destroySession_purged [where st = ?d and u = userId] by simp
  show ?thesis
    using live cf cd pf pd by simp
qed

theorem status_transitions_witness:
  "getSession one_ready ''a'' = Some client1
   \<and> map_get (lastActivity (fst (handle_event one_ready ''a'' ReadyEv 42))) ''a'' = Some 42
   \<and> AuthFailureEv ''bad'' \<in> {AuthFailureEv ''bad'', DisconnectedEv ''bad''}
   \<and> map_get (lastActivity (fst (handle_event one_ready ''a'' (AuthFailureEv ''bad'') 42))) ''a''
        = None
   \<and> getSessionStatus (fst (handle_event one_ready ''a'' (AuthFailureEv ''bad'') 42)) ''a''
        = No_session
   \<and> ClientDestroy (handle client1)
        \<in> set (snd (handle_event one_ready ''a'' (AuthFailureEv ''bad'') 42))"
proof -
  have s: "getSession one_ready ''a'' = Some client1"
    by (simp add: getSession_def one_ready_def map_get_def)
  have m: "AuthFailureEv ''bad'' \<in> {AuthFailureEv ''bad'', DisconnectedEv ''bad''}"
    by simp
  show ?thesis
    using status_transitions [of one_ready "''a''" qr 42 "''bad''"] s m by simp
qed

section \<open>Idle cleanup\<close>

lemmas eval_defs = destroySession_def teardown_client_def removeDir_def map_delete_def
  map_set_def map_get_def map_has_def map_size_def getSession_def getSessionStatus_def
  getQRCode_def

lemma map_has_get: "map_has m k = (map_get m k \<noteq> None)"
  by (simp add: map_has_def map_get_def)

lemma destroy_each_Cons:
  "fst (destroy_each st (u # us)) = fst (destroy_each (fst (destroySession st u)) us)"
  "snd (destroy_each st (u # us)) =
     snd (destroySession st u) @ snd (destroy_each (fst (destroySession st u)) us)"
  by (simp_all add: case_prod_beta)

lemma destroy_each_sessions:
  "map_get (sessions (fst (destroy_each st us))) u =
     (if u \<in> set us then None else map_get (sessions st) u)"
  by (induction us arbitrary: st)
     (simp_all add: destroy_each_Cons destroySession_sessions map_get_delete
        del: destroy_each.simps(2))

lemma destroy_each_qrCodes:
  "map_get (qrCodes (fst (destroy_each st us))) u =
     (if u \<in> set us then None else map_get (qrCodes st) u)"
  by (induction us arbitrary: st)
     (simp_all add: destroy_each_Cons destroySession_qrCodes map_get_delete
        del: destroy_each.simps(2))

lemma destroy_each_sessionStatus:
  "map_get (sessionStatus (fst (destroy_each st us))) u =
     (if u \<in> set us then None else map_get (sessionStatus st) u)"
  by (induction us arbitrary: st)
     (simp_all add: destroy_each_Cons destroySession_sessionStatus map_get_delete
        del: destroy_each.simps(2))

lemma destroy_each_lastActivity:
  "map_get (lastActivity (fst (destroy_each st us))) u =
     (if u \<in> set us then None else map_get (lastActivity st) u)"
  by (induction us arbitrary: st)
     (simp_all add: destroy_each_Cons destroySession_lastActivity map_get_delete
        del: destroy_each.simps(2))

lemma destroy_each_sessionLocks:
  "map_get (sessionLocks (fst (destroy_each st us))) u =
     (if u \<in> set us then None else map_get (sessionLocks st) u)"
  by (induction us arbitrary: st)
     (simp_all add: destroy_each_Cons destroySession_sessionLocks map_get_delete
        del: destroy_each.simps(2))

lemma destroy_each_calls_destroy:
  "u \<in> set us \<Longrightarrow> map_get (sessions st) u = Some c
     \<Longrightarrow> ClientDestroy (handle c) \<in> set (snd (destroy_each st us))"
proof (induction us arbitrary: st)
  case Nil
  then show ?case by simp
next
  case (Cons x us)
  show ?case
  proof (cases "x = u")
    case True
    then show ?thesis
      using Cons.prems(2) by (simp add: destroy_each_Cons destroySession_calls_destroy del: destroy_each.simps(2))
  next
    case False
    then have "u \<in> set us"
      using Cons.prems(1) by simp
    moreover have "map_get (sessions (fst (destroySession st x))) u = Some c"
      using False Cons.prems(2) by (simp add: destroySession_sessions map_get_delete)
    ultimately show ?thesis
      using Cons.IH by (simp add: destroy_each_Cons del: destroy_each.simps(2))
  qed
qed

lemma idle_listed:
  "(u, la) \<in> set (lastActivity st) \<Longrightarrow> is_idle cfg now la
     \<Longrightarrow> u \<in> set (sessionsToRemove cfg st now)"
  by (force simp: sessionsToRemove_def)

lemma cleanup_without_timeout:
  "timeoutMinutes cfg = None \<Longrightarrow> cleanupInactiveSessions cfg st now = (st, [])"
  by (simp add: cleanupInactiveSessions_def sessionsToRemove_def is_idle_def)

text \<open>
  Claim C8. With an idle timeout of \<open>m\<close> minutes configured, one run of
  \<open>cleanupInactiveSessions\<close> at time \<open>now\<close> destroys every id whose last activity
  lies more than \<open>m * 60 * 1000\<close> milliseconds back: its records are purged and its
  client, if it has one, gets its \<open>destroy\<close> call. This holds for every state, so
  also when the client of an idle session met earlier rejects \<open>logout\<close> or
  \<open>destroy\<close>: \<open>destroySession\<close> catches both. The ids destroyed are exactly the idle
  ones, and every other id keeps its session, status and last activity.
\<close>

theorem cleanup_destroys_idle:
  assumes "timeoutMinutes cfg = Some m"
  shows "(\<forall>(u, la) \<in> set (lastActivity st). now - la > m * 60 * 1000 \<longrightarrow>
            getSession (fst (cleanupInactiveSessions cfg st now)) u = None
            \<and> getSessionStatus (fst (cleanupInactiveSessions cfg st now)) u = No_session
            \<and> getQRCode (fst (cleanupInactiveSessions cfg st now)) u = None
            \<and> map_get (lastActivity (fst (cleanupInactiveSessions cfg st now))) u = None
            \<and> \<not> map_has (sessionLocks (fst (cleanupInactiveSessions cfg st now))) u
            \<and> (\<forall>c. getSession st u = Some c \<longrightarrow>
                  ClientDestroy (handle c) \<in> set (snd (cleanupInactiveSessions cfg st now))))
       \<and> (\<forall>u. u \<notin> set (sessionsToRemove cfg st now) \<longrightarrow>
            getSession (fst (cleanupInactiveSessions cfg st now)) u = getSession st u
            \<and> getSessionStatus (fst (cleanupInactiveSessions cfg st now)) u
                = getSessionStatus st u
            \<and> map_get (lastActivity (fst (cleanupInactiveSessions cfg st now))) u
                = map_get (lastActivity st) u)
       \<and> set (sessionsToRemove cfg st now)
            = {u. \<exists>la. (u, la) \<in> set (lastActivity st) \<and> now - la > m * 60 * 1000}"
proof -
  let ?us = "sessionsToRemove cfg st now"
  let ?st = "fst (destroy_each st ?us)"
  have idle: "is_idle cfg now la = (now - la > m * 60 * 1000)" for la
    using assms by (simp add: is_idle_def)
  have gone: "getSession ?st u = None \<and> getSessionStatus ?st u = No_session
      \<and> getQRCode ?st u = None \<and> map_get (lastActivity ?st) u = None
      \<and> \<not> map_has (sessionLocks ?st) u"
    if "u \<in> set ?us" for u
    using that
    by (simp add: getSession_def getSessionStatus_def getQRCode_def map_has_get
        destroy_each_sessions destroy_each_sessionStatus destroy_each_qrCodes
        destroy_each_lastActivity destroy_each_sessionLocks)
  have kept: "getSession ?st u = getSession st u
      \<and> getSessionStatus ?st u = getSessionStatus st u
      \<and> map_get (lastActivity ?st) u = map_get (lastActivity st) u"
    if "u \<notin> set ?us" for u
    using that
    by (simp add: getSession_def getSessionStatus_def destroy_each_sessions
        destroy_each_sessionStatus destroy_each_lastActivity)
  have listed: "set ?us = {u. \<exists>la. (u, la) \<in> set (lastActivity st) \<and> now - la > m * 60 * 1000}"
    by (force simp: sessionsToRemove_def idle)
  have calls: "ClientDestroy (handle c) \<in> set (snd (destroy_each st ?us))"
    if "u \<in> set ?us" "getSession st u = Some c" for u c
    using that by (simp add: destroy_each_calls_destroy getSession_def)
  show ?thesis
    unfolding cleanupInactiveSessions_def
    using gone kept calls listed by blast
qed

theorem cleanup_destroys_idle_witness:
  "timeoutMinutes config_render_free = Some 20
   \<and> (''old'', 0) \<in> set (lastActivity three_sessions)
   \<and> (''older'', 10) \<in> set (lastActivity three_sessions)
   \<and> (1200011::int) - 10 > 20 * 60 * 1000
   \<and> getSession three_sessions ''older'' = Some client1
   \<and> snd (cleanupInactiveSessions config_render_free three_sessions 1200011)
        = [ClientLogout 3, LogWarn ''Error during logout'',
           ClientDestroy 3, LogError ''Error destroying client'',
           ClientLogout 1, ClientDestroy 1]
   \<and> getSession (fst (cleanupInactiveSessions config_render_free three_sessions 1200011))
         ''older'' = None
   \<and> getSessionStatus (fst (cleanupInactiveSessions config_render_free three_sessions 1200011))
         ''old'' = No_session
   \<and> ''fresh'' \<notin> set (sessionsToRemove config_render_free three_sessions 1200011)
   \<and> getSession (fst (cleanupInactiveSessions config_render_free three_sessions 1200011))
         ''fresh'' = Some client2"
proof -
  have t: "timeoutMinutes config_render_free = Some 20"
    by (simp add: config_render_free_def)
  have l: "sessionsToRemove config_render_free three_sessions 1200011 = [''old'', ''older'']"
    by (simp add: sessionsToRemove_def is_idle_def config_render_free_def three_sessions_def)
  have e: "snd (cleanupInactiveSessions config_render_free three_sessions 1200011)
        = [ClientLogout 3, LogWarn ''Error during logout'',
           ClientDestroy 3, LogError ''Error destroying client'',
           ClientLogout 1, ClientDestroy 1]"
    unfolding cleanupInactiveSessions_def l
    by (simp add: three_sessions_def eval_defs failing_client_def client1_def)
  have s: "getSession three_sessions ''older'' = Some client1"
    "getSession three_sessions ''fresh'' = Some client2"
    "(''old'', 0) \<in> set (lastActivity three_sessions)"
    "(''older'', 10) \<in> set (lastActivity three_sessions)"
    by (simp_all add: three_sessions_def getSession_def map_get_def)
  note th = cleanup_destroys_idle [OF t, of three_sessions 1200011]
  have i: "(1200011::int) - 10 > 20 * 60 * 1000"
    by simp
  have g: "getSession (fst (cleanupInactiveSessions config_render_free three_sessions 1200011))
         ''older'' = None"
    using th [THEN conjunct1, THEN bspec, OF s(4)] i by simp
  have g': "getSessionStatus (fst (cleanupInactiveSessions config_render_free three_sessions 1200011))
         ''old'' = No_session"
    using th [THEN conjunct1, THEN bspec, OF s(3)] by simp
  have n: "''fresh'' \<notin> set (sessionsToRemove config_render_free three_sessions 1200011)"
    unfolding l by simp
  have k: "getSession (fst (cleanupInactiveSessions config_render_free three_sessions 1200011))
         ''fresh'' = Some client2"
    using th [THEN conjunct2, THEN conjunct1, THEN spec, of "''fresh''"] n s(2) by simp
  show ?thesis
    by (intro conjI) (rule t s i e g g' n k)+
qed

section \<open>Capacity\<close>

text \<open>
  Claim C1, evaluated on the code. With \<open>maxSessions = 1\<close>, \<open>createSession\<close> for
  \<open>a\<close> and then for \<open>b\<close>, both while the clock reads 1000: \<open>getOldestSession\<close>
  starts its search at \<open>oldestTime = Date.now()\<close> and compares with \<open><\<close>, so the
  session last active at 1000 is not found, nothing is evicted, and two sessions are
  live where one is allowed.
\<close>

theorem capacity_exceeded_same_millisecond:
  "maxSessions single_config = 1
   \<and> create_all single_config new_manager [(''a'', 1000, 1000, Initialize client1 [] None)]
       = \<lparr> sessions = [(''a'', client1)], qrCodes = [(''a'', None)],
           sessionStatus = [(''a'', Initializing)], lastActivity = [(''a'', 1000)],
           sessionLocks = [], disk = [] \<rparr>
   \<and> getOldestSession
         (create_all single_config new_manager [(''a'', 1000, 1000, Initialize client1 [] None)])
         1000 = None
   \<and> sessions (create_all single_config new_manager
                   [(''a'', 1000, 1000, Initialize client1 [] None),
                    (''b'', 1000, 1000, Initialize client2 [] None)])
       = [(''a'', client1), (''b'', client2)]
   \<and> int (map_size (sessions (create_all single_config new_manager
                   [(''a'', 1000, 1000, Initialize client1 [] None),
                    (''b'', 1000, 1000, Initialize client2 [] None)])))
       > maxSessions single_config"
  by (simp add: single_config_def config_render_free_def new_manager_def createSession_def
      evict_if_full_def getOldestSession_def is_live_def eval_defs)

lemma capacity_kept_next_millisecond:
  "create_all single_config new_manager
     [(''a'', 1000, 1000, Initialize client1 [] None),
      (''b'', 1001, 1001, Initialize client2 [] None)]
   = \<lparr> sessions = [(''b'', client2)], qrCodes = [(''b'', None)],
       sessionStatus = [(''b'', Initializing)], lastActivity = [(''b'', 1001)],
       sessionLocks = [], disk = [] \<rparr>"
  by (simp add: single_config_def config_render_free_def new_manager_def createSession_def
      evict_if_full_def getOldestSession_def is_live_def eval_defs)

text \<open>
  What the eviction does when the clock has moved on. \<open>getOldestSession\<close> returns an
  id exactly when some last activity lies strictly before the current clock value, and
  then it is an id with the smallest last activity. When in addition the activity map
  tracks live sessions only, a full registry loses exactly that one session, and
  \<open>createSession\<close> keeps the number of sessions within \<open>maxSessions\<close>.
\<close>

lemma oldest_scan_min:
  "(oldest_scan xs acc t = acc \<and> (\<forall>(v, lb) \<in> set xs. t \<le> lb))
   \<or> (\<exists>u la. oldest_scan xs acc t = Some u \<and> (u, la) \<in> set xs \<and> la < t
          \<and> (\<forall>(v, lb) \<in> set xs. la \<le> lb))"
proof (induction xs arbitrary: acc t)
  case Nil
  then show ?case by simp
next
  case (Cons x xs)
  obtain k a where x: "x = (k, a)"
    by (cases x)
  show ?case
  proof (cases "a < t")
    case True
    from Cons [of "Some k" a] show ?thesis
    proof
      assume "oldest_scan xs (Some k) a = Some k \<and> (\<forall>(v, lb) \<in> set xs. a \<le> lb)"
      then have "oldest_scan (x # xs) acc t = Some k \<and> (k, a) \<in> set (x # xs) \<and> a < t
          \<and> (\<forall>(v, lb) \<in> set (x # xs). a \<le> lb)"
        using True x by simp
      then show ?thesis by blast
    next
      assume "\<exists>u la. oldest_scan xs (Some k) a = Some u \<and> (u, la) \<in> set xs \<and> la < a
          \<and> (\<forall>(v, lb) \<in> set xs. la \<le> lb)"
      then obtain u la where "oldest_scan xs (Some k) a = Some u" "(u, la) \<in> set xs" "la < a"
        "\<forall>(v, lb) \<in> set xs. la \<le> lb"
        by blast
      then have "oldest_scan (x # xs) acc t = Some u \<and> (u, la) \<in> set (x # xs) \<and> la < t
          \<and> (\<forall>(v, lb) \<in> set (x # xs). la \<le> lb)"
        using True x by simp
      then show ?thesis by blast
    qed
  next
    case False
    from Cons [of acc t] show ?thesis
    proof
      assume "oldest_scan xs acc t = acc \<and> (\<forall>(v, lb) \<in> set xs. t \<le> lb)"
      then show ?thesis
        using False x by simp
    next
      assume "\<exists>u la. oldest_scan xs acc t = Some u \<and> (u, la) \<in> set xs \<and> la < t
          \<and> (\<forall>(v, lb) \<in> set xs. la \<le> lb)"
      then obtain u la where "oldest_scan xs acc t = Some u" "(u, la) \<in> set xs" "la < t"
        "\<forall>(v, lb) \<in> set xs. la \<le> lb"
        by blast
      then have "oldest_scan (x # xs) acc t = Some u \<and> (u, la) \<in> set (x # xs) \<and> la < t
          \<and> (\<forall>(v, lb) \<in> set (x # xs). la \<le> lb)"
        using False x by simp
      then show ?thesis by blast
    qed
  qed
qed

lemma getOldestSession_least:
  assumes "(v, lb) \<in> set (lastActivity st)" "lb < now"
  shows "\<exists>u la. getOldestSession st now = Some u \<and> (u, la) \<in> set (lastActivity st) \<and> la < now
           \<and> (\<forall>(w, lc) \<in> set (lastActivity st). la \<le> lc)"
  using oldest_scan_min [of "lastActivity st" None now] assms
  unfolding getOldestSession_def by fastforce

lemma getOldestSession_none:
  "getOldestSession st now = None \<longleftrightarrow> (\<forall>(v, lb) \<in> set (lastActivity st). now \<le> lb)"
  using oldest_scan_min [of "lastActivity st" None now]
  unfolding getOldestSession_def by fastforce

lemma length_delete_distinct:
  "distinct (map fst m) \<Longrightarrow> k \<in> fst ` set m \<Longrightarrow> Suc (length (AList.delete k m)) = length m"
proof (induction m)
  case Nil
  then show ?case by simp
next
  case (Cons p m)
  then show ?case
    by (cases "fst p = k") (auto simp: delete_id image_iff)
qed

lemma map_size_delete: "map_size (map_delete m k) \<le> map_size m"
  by (simp add: map_size_def map_delete_def length_delete_le)

lemma map_size_set: "map_size (map_set m k v) \<le> Suc (map_size m)"
  unfolding map_size_def map_set_def by (induction m) auto

lemma handle_event_sessions:
  "map_size (sessions (fst (handle_event st u ev now))) \<le> map_size (sessions st)"
  by (cases ev)
     (simp_all add: updateActivity_def case_prod_beta destroySession_sessions map_size_delete)

lemma handle_events_sessions:
  "map_size (sessions (fst (handle_events st u evs))) \<le> map_size (sessions st)"
proof (induction evs arbitrary: st)
  case Nil
  then show ?case by simp
next
  case (Cons e evs)
  obtain ev now where e: "e = (ev, now)"
    by (cases e)
  have "map_size (sessions (fst (handle_events (fst (handle_event st u ev now)) u evs)))
          \<le> map_size (sessions (fst (handle_event st u ev now)))"
    by (rule Cons)
  also have "\<dots> \<le> map_size (sessions st)"
    by (rule handle_event_sessions)
  finally show ?case
    by (simp add: e case_prod_beta)
qed


lemma destroySession_size:
  "map_size (sessions (fst (destroySession st u))) \<le> map_size (sessions st)"
  by (simp add: destroySession_sessions map_size_delete)

lemma evict_if_full_room:
  assumes "distinct (map fst (sessions st))"
    and "int (map_size (sessions st)) \<le> maxSessions cfg"
    and "fst ` set (lastActivity st) \<subseteq> fst ` set (sessions st)"
    and "[] \<notin> fst ` set (lastActivity st)"
    and "int (map_size (sessions st)) = maxSessions cfg
           \<longrightarrow> (\<exists>(v, lb) \<in> set (lastActivity st). lb < now)"
  shows "int (map_size (sessions (fst (evict_if_full cfg st now)))) < maxSessions cfg
         \<or> maxSessions cfg \<le> 0"
proof (cases "int (map_size (sessions st)) < maxSessions cfg")
  case True
  then show ?thesis
    by (simp add: evict_if_full_def)
next
  case False
  then have full: "int (map_size (sessions st)) = maxSessions cfg"
    using assms(2) by simp
  with assms(5) obtain v lb where "(v, lb) \<in> set (lastActivity st)" "lb < now"
    by blast
  from getOldestSession_least [OF this] obtain u la where
    u: "getOldestSession st now = Some u" "(u, la) \<in> set (lastActivity st)"
    by blast
  then have "u \<in> fst ` set (lastActivity st)"
    by force
  then have "u \<noteq> []" and "u \<in> fst ` set (sessions st)"
    using assms(3,4) by blast+
  then have "Suc (map_size (sessions (fst (destroySession st u)))) = map_size (sessions st)"
    using assms(1)
    by (simp add: destroySession_sessions map_size_def map_delete_def length_delete_distinct)
  moreover have "evict_if_full cfg st now = destroySession st u"
    using full u(1) \<open>u \<noteq> []\<close> by (simp add: evict_if_full_def)
  ultimately show ?thesis
    using full by simp
qed

lemma createSession_after_eviction:
  "map_size (sessions (fst (snd (createSession cfg st userId now now' su))))
     \<le> Suc (map_size (sessions (fst (evict_if_full cfg st now))))"
proof -
  let ?st1 = "fst (evict_if_full cfg st now)"
  let ?st2 = "fst (if map_has (sessions ?st1) userId then destroySession ?st1 userId
                   else (?st1, []))"
  let ?st3 = "?st2\<lparr> sessionStatus := map_set (sessionStatus ?st2) userId Initializing,
                      qrCodes := map_set (qrCodes ?st2) userId None,
                      lastActivity := map_set (lastActivity ?st2) userId now' \<rparr>"
  have s2: "map_size (sessions ?st2) \<le> map_size (sessions ?st1)"
    by (simp add: destroySession_size)
  show ?thesis
  proof (cases "map_has (sessions ?st1) userId \<and> is_live (map_get (sessionStatus ?st1) userId)")
    case True
    then show ?thesis
      by (simp add: createSession_def case_prod_beta)
  next
    case False
    show ?thesis
    proof (cases su)
      case (ConstructorThrows msg)
      have "fst (snd (createSession cfg st userId now now' su)) = fst (destroySession ?st3 userId)"
        using False ConstructorThrows
        by (auto simp: createSession_def case_prod_beta Let_def)
      moreover have "map_size (sessions (fst (destroySession ?st3 userId)))
                       \<le> map_size (sessions ?st3)"
        by (rule destroySession_size)
      ultimately show ?thesis
        using s2 by simp
    next
      case (Initialize cl evs err)
      let ?st4 = "?st3\<lparr> sessions := map_set (sessions ?st3) userId cl \<rparr>"
      let ?st5 = "fst (handle_events ?st4 userId evs)"
      have "map_size (sessions ?st5) \<le> map_size (sessions ?st4)"
        by (rule handle_events_sessions)
      also have "\<dots> \<le> Suc (map_size (sessions ?st2))"
        by (simp add: map_size_set)
      finally have s5: "map_size (sessions ?st5) \<le> Suc (map_size (sessions ?st1))"
        using s2 by simp
      show ?thesis
      proof (cases err)
        case None
        then have "fst (snd (createSession cfg st userId now now' su)) = ?st5"
          using False Initialize
          by (auto simp: createSession_def case_prod_beta Let_def)
        then show ?thesis
          using s5 by simp
      next
        case (Some msg)
        then have "fst (snd (createSession cfg st userId now now' su))
                     = fst (destroySession ?st5 userId)"
          using False Initialize
          by (auto simp: createSession_def case_prod_beta Let_def)
        moreover have "map_size (sessions (fst (destroySession ?st5 userId)))
                         \<le> map_size (sessions ?st5)"
          by (rule destroySession_size)
        ultimately show ?thesis
          using s5 by simp
      qed
    qed
  qed
qed

lemma createSession_capacity:
  assumes "1 \<le> maxSessions cfg"
    and "distinct (map fst (sessions st))"
    and "int (map_size (sessions st)) \<le> maxSessions cfg"
    and "fst ` set (lastActivity st) \<subseteq> fst ` set (sessions st)"
    and "[] \<notin> fst ` set (lastActivity st)"
    and "int (map_size (sessions st)) = maxSessions cfg
           \<longrightarrow> (\<exists>(v, lb) \<in> set (lastActivity st). lb < now)"
  shows "int (map_size (sessions (fst (snd (createSession cfg st userId now now' su)))))
           \<le> maxSessions cfg"
  using evict_if_full_room [OF assms(2-6)] assms(1)
    createSession_after_eviction [of cfg st userId now now' su]
  by linarith


lemma eviction_picks_least:
  assumes "distinct (map fst (sessions st))"
    and "maxSessions cfg \<le> int (map_size (sessions st))"
    and "fst ` set (lastActivity st) \<subseteq> fst ` set (sessions st)"
    and "[] \<notin> fst ` set (lastActivity st)"
    and "(v, lb) \<in> set (lastActivity st)" "lb < now"
  shows "\<exists>u la. evict_if_full cfg st now = destroySession st u
           \<and> (u, la) \<in> set (lastActivity st) \<and> la < now
           \<and> (\<forall>(w, lc) \<in> set (lastActivity st). la \<le> lc)
           \<and> Suc (map_size (sessions (fst (evict_if_full cfg st now)))) = map_size (sessions st)
           \<and> (\<forall>w. w \<noteq> u \<longrightarrow> getSession (fst (evict_if_full cfg st now)) w = getSession st w)"
proof -
  from getOldestSession_least [OF assms(5,6)] obtain u la where
    u: "getOldestSession st now = Some u" "(u, la) \<in> set (lastActivity st)" "la < now"
      "\<forall>(w, lc) \<in> set (lastActivity st). la \<le> lc"
    by blast
  then have "u \<in> fst ` set (lastActivity st)"
    by force
  then have "u \<noteq> []" and "u \<in> fst ` set (sessions st)"
    using assms(3,4) by blast+
  then have size: "Suc (map_size (sessions (fst (destroySession st u)))) = map_size (sessions st)"
    using assms(1)
    by (simp add: destroySession_sessions map_size_def map_delete_def length_delete_distinct)
  have e: "evict_if_full cfg st now = destroySession st u"
    using assms(2) u(1) \<open>u \<noteq> []\<close> by (simp add: evict_if_full_def)
  have "\<forall>w. w \<noteq> u \<longrightarrow> getSession (fst (destroySession st u)) w = getSession st w"
    by (simp add: getSession_def destroySession_sessions map_get_delete)
  with e u size show ?thesis
    by auto
qed

section \<open>Creating a session that is live\<close>

text \<open>
  Claim C4, evaluated on the code. The registry holds its one allowed session \<open>a\<close>,
  ready, with client 1. \<open>createSession\<close> for \<open>a\<close> first runs the capacity
  check, which picks \<open>a\<close> itself as the oldest session and destroys it; the check for
  an existing live session then finds nothing, and a new session with client 2 is
  created in status \<open>initializing\<close>.
\<close>

theorem create_on_ready_session_at_capacity:
  "getSessionStatus one_ready ''a'' = Ready
   \<and> getSession one_ready ''a'' = Some client1
   \<and> int (map_size (sessions one_ready)) = maxSessions single_config
   \<and> createSession single_config one_ready ''a'' 10 11 (Initialize client2 [] None)
       = (Success ''Session initialization finished.'' (Some Initializing),
          \<lparr> sessions = [(''a'', client2)], qrCodes = [(''a'', None)],
            sessionStatus = [(''a'', Initializing)], lastActivity = [(''a'', 11)],
            sessionLocks = [], disk = [SessionAuth ''a'', SessionCache ''a''] \<rparr>,
          [ClientLogout 1, ClientDestroy 1,
           RemoveDir (SessionAuth ''a''), RemoveDir (SessionCache ''a'')])
   \<and> client2 \<noteq> client1"
  by (simp add: single_config_def config_render_free_def one_ready_def createSession_def
      evict_if_full_def getOldestSession_def is_live_def eval_defs client1_def client2_def)

lemma evict_if_full_below:
  "int (map_size (sessions st)) < maxSessions cfg \<Longrightarrow> evict_if_full cfg st now = (st, [])"
  by (simp add: evict_if_full_def)

lemma createSession_live_below_capacity:
  assumes "int (map_size (sessions st)) < maxSessions cfg"
    and "map_has (sessions st) userId"
    and "is_live (map_get (sessionStatus st) userId)"
  shows "createSession cfg st userId now now' su =
           (Success (''Session already '' @ status_string (getSessionStatus st userId))
                    (map_get (sessionStatus st) userId), st, [])"
  using assms by (simp add: createSession_def evict_if_full_below)

lemma evict_if_full_other:
  assumes "getOldestSession st now \<noteq> Some userId"
  shows "map_get (sessions (fst (evict_if_full cfg st now))) userId = map_get (sessions st) userId"
    and "map_get (sessionStatus (fst (evict_if_full cfg st now))) userId
           = map_get (sessionStatus st) userId"
  using assms
  by (auto simp: evict_if_full_def destroySession_sessions destroySession_sessionStatus
      map_get_delete split: option.splits)

lemma createSession_live_not_victim:
  assumes "map_has (sessions st) userId"
    and "is_live (map_get (sessionStatus st) userId)"
    and "getOldestSession st now \<noteq> Some userId"
  shows "createSession cfg st userId now now' su =
           (Success (''Session already '' @ status_string (getSessionStatus st userId))
                    (map_get (sessionStatus st) userId),
            fst (evict_if_full cfg st now), snd (evict_if_full cfg st now))
         \<and> getSession (fst (evict_if_full cfg st now)) userId = getSession st userId"
  using assms evict_if_full_other [OF assms(3), of cfg]
  by (simp add: createSession_def case_prod_beta getSession_def getSessionStatus_def map_has_def
      map_get_def)

section \<open>The dispatch loop\<close>

lemma attempt_resolves:
  "filter is_resolve (fst (attempt cl media cm r acc)) = [Resolve (normalize_number r)]"
  by (simp add: attempt_def Let_def split: outcome.splits option.splits)

lemma attempt_null:
  "getNumberId cl (normalize_number r) = Returns None
     \<Longrightarrow> attempt cl media cm r acc
           = ([Resolve (normalize_number r)], count_failed acc r not_valid_reason)"
  by (simp add: attempt_def)

lemma attempt_delivers:
  "getNumberId cl (normalize_number r) = Returns (Some c)
     \<Longrightarrow> \<forall>p. sendMessage cl c p = Returns ()
     \<Longrightarrow> snd (attempt cl media cm r acc) = count_sent acc"
  by (simp add: attempt_def Let_def)

lemma attempt_nothing_to_send:
  "getNumberId cl (normalize_number r) = Returns (Some c) \<Longrightarrow> \<not> media \<Longrightarrow> \<not> truthy cm
     \<Longrightarrow> attempt cl media cm r acc = ([Resolve (normalize_number r)], count_sent acc)"
  by (simp add: attempt_def)

lemma attempt_counts_once:
  "snd (attempt cl media cm r acc) = count_sent acc
   \<or> (\<exists>reason. snd (attempt cl media cm r acc) = count_failed acc r reason)"
  by (auto simp: attempt_def Let_def split: outcome.splits option.splits)

lemma count_fields:
  "enviados (count_sent acc) = enviados acc + 1"
  "fallidos (count_sent acc) = fallidos acc"
  "failedNumbers (count_sent acc) = failedNumbers acc"
  "enviados (count_failed acc r reason) = enviados acc"
  "fallidos (count_failed acc r reason) = fallidos acc + 1"
  "failedNumbers (count_failed acc r reason) = failedNumbers acc @ [(r, reason)]"
  by (simp_all add: count_sent_def count_failed_def)

lemma send_loop_Cons:
  "fst (send_loop cl media message ms i (JStr r # rest) acc) =
     fst (send_loop cl media message ms (Suc i) rest
            (snd (attempt cl media (js_or (js_index ms i) (js_or (JStr message) (JStr []))) r acc)))"
  "fst (snd (send_loop cl media message ms i (JStr r # rest) acc)) =
     fst (attempt cl media (js_or (js_index ms i) (js_or (JStr message) (JStr []))) r acc)
     @ fst (snd (send_loop cl media message ms (Suc i) rest
            (snd (attempt cl media (js_or (js_index ms i) (js_or (JStr message) (JStr []))) r acc))))"
  "snd (snd (send_loop cl media message ms i (JStr r # rest) acc)) =
     snd (snd (send_loop cl media message ms (Suc i) rest
            (snd (attempt cl media (js_or (js_index ms i) (js_or (JStr message) (JStr []))) r acc))))"
  by (simp_all add: case_prod_beta Let_def)

lemma send_loop_finishes: "fst (send_loop cl media message ms i (map JStr rs) acc)"
  by (induction rs arbitrary: i acc) (simp_all add: send_loop_Cons del: send_loop.simps(2))

lemma send_loop_resolves:
  "filter is_resolve (fst (snd (send_loop cl media message ms i (map JStr rs) acc)))
     = map (\<lambda>r. Resolve (normalize_number r)) rs"
  by (induction rs arbitrary: i acc)
     (simp_all add: send_loop_Cons attempt_resolves del: send_loop.simps(2))

lemma attempt_total:
  "enviados (snd (attempt cl media cm r acc)) + fallidos (snd (attempt cl media cm r acc))
     = Suc (enviados acc + fallidos acc)"
  using attempt_counts_once [of cl media cm r acc] by (auto simp: count_fields)

lemma attempt_failures:
  "length (failedNumbers (snd (attempt cl media cm r acc)))
       + fallidos acc
     = length (failedNumbers acc) + fallidos (snd (attempt cl media cm r acc))"
  "set (failedNumbers acc) \<subseteq> set (failedNumbers (snd (attempt cl media cm r acc)))"
  using attempt_counts_once [of cl media cm r acc] by (auto simp: count_fields)

lemma send_loop_total:
  "fst (send_loop cl media message ms i ns acc) \<Longrightarrow>
   enviados (snd (snd (send_loop cl media message ms i ns acc)))
     + fallidos (snd (snd (send_loop cl media message ms i ns acc)))
   = enviados acc + fallidos acc + length ns"
proof (induction ns arbitrary: i acc)
  case Nil
  then show ?case by simp
next
  case (Cons n ns)
  show ?case
  proof (cases n)
    case (JStr r)
    let ?a = "snd (attempt cl media (js_or (js_index ms i) (js_or (JStr message) (JStr []))) r acc)"
    have "fst (send_loop cl media message ms (Suc i) ns ?a)"
      using Cons.prems JStr by (simp add: send_loop_Cons del: send_loop.simps(2))
    from Cons.IH [OF this] show ?thesis
      using JStr by (simp add: send_loop_Cons attempt_total del: send_loop.simps(2))
  qed (use Cons.prems in simp_all)
qed

lemma send_loop_failures:
  "length (failedNumbers (snd (snd (send_loop cl media message ms i (map JStr rs) acc))))
       + fallidos acc
     = length (failedNumbers acc)
       + fallidos (snd (snd (send_loop cl media message ms i (map JStr rs) acc)))"
proof (induction rs arbitrary: i acc)
  case Nil
  then show ?case by simp
next
  case (Cons r rs)
  let ?cm = "js_or (js_index ms i) (js_or (JStr message) (JStr []))"
  let ?a = "snd (attempt cl media ?cm r acc)"
  from Cons [of "Suc i" ?a] attempt_failures(1) [where cl = cl and media = media and cm = ?cm
      and r = r and acc = acc]
  show ?case
    by (simp add: send_loop_Cons del: send_loop.simps(2))
qed

lemma send_loop_keeps_failures:
  "set (failedNumbers acc)
     \<subseteq> set (failedNumbers (snd (snd (send_loop cl media message ms i (map JStr rs) acc))))"
proof (induction rs arbitrary: i acc)
  case Nil
  then show ?case by simp
next
  case (Cons r rs)
  let ?cm = "js_or (js_index ms i) (js_or (JStr message) (JStr []))"
  let ?a = "snd (attempt cl media ?cm r acc)"
  from Cons [where acc = ?a and i = "Suc i"] attempt_failures(2) [where cl = cl and media = media
      and cm = ?cm and r = r and acc = acc]
  show ?case
    by (simp add: send_loop_Cons del: send_loop.simps(2))
qed


lemma send_loop_records_null:
  "k < length rs \<Longrightarrow> getNumberId cl (normalize_number (rs ! k)) = Returns None
     \<Longrightarrow> (rs ! k, not_valid_reason)
           \<in> set (failedNumbers (snd (snd (send_loop cl media message ms i (map JStr rs) acc))))"
proof (induction rs arbitrary: i acc k)
  case Nil
  then show ?case by simp
next
  case (Cons r rs)
  let ?cm = "js_or (js_index ms i) (js_or (JStr message) (JStr []))"
  let ?a = "snd (attempt cl media ?cm r acc)"
  show ?case
  proof (cases k)
    case 0
    then have "(r, not_valid_reason) \<in> set (failedNumbers ?a)"
      using Cons.prems(2) by (simp add: attempt_null count_fields)
    then show ?thesis
      using 0 send_loop_keeps_failures [of ?a cl media message ms "Suc i" rs]
      by (auto simp: send_loop_Cons simp del: send_loop.simps(2))
  next
    case (Suc k')
    then show ?thesis
      using Cons.prems Cons.IH [of k' "Suc i" ?a]
      by (simp add: send_loop_Cons del: send_loop.simps(2))
  qed
qed

lemma send_loop_all_delivered:
  assumes "\<forall>j<length rs. \<exists>c. getNumberId cl (normalize_number (rs ! j)) = Returns (Some c)
             \<and> (\<forall>p. sendMessage cl c p = Returns ())"
  shows "enviados (snd (snd (send_loop cl media message ms i (map JStr rs) acc)))
           = enviados acc + length rs
         \<and> fallidos (snd (snd (send_loop cl media message ms i (map JStr rs) acc)))
           = fallidos acc
         \<and> failedNumbers (snd (snd (send_loop cl media message ms i (map JStr rs) acc)))
           = failedNumbers acc"
  using assms
proof (induction rs arbitrary: i acc)
  case Nil
  then show ?case by simp
next
  case (Cons r rs)
  let ?cm = "js_or (js_index ms i) (js_or (JStr message) (JStr []))"
  from Cons.prems have "\<exists>c. getNumberId cl (normalize_number r) = Returns (Some c)
             \<and> (\<forall>p. sendMessage cl c p = Returns ())"
    by auto
  then have a: "snd (attempt cl media ?cm r acc) = count_sent acc"
    by (auto simp: attempt_delivers)
  from Cons.prems have "\<forall>j<length rs. \<exists>c. getNumberId cl (normalize_number (rs ! j)) = Returns (Some c)
             \<and> (\<forall>p. sendMessage cl c p = Returns ())"
    by auto
  from Cons.IH [OF this, of "Suc i" "count_sent acc"] show ?case
    by (simp add: send_loop_Cons a count_fields del: send_loop.simps(2))
qed

lemma send_loop_one_null:
  assumes "k < length rs"
    and "getNumberId cl (normalize_number (rs ! k)) = Returns None"
    and "\<forall>j<length rs. j \<noteq> k \<longrightarrow>
           (\<exists>c. getNumberId cl (normalize_number (rs ! j)) = Returns (Some c)
                \<and> (\<forall>p. sendMessage cl c p = Returns ()))"
  shows "enviados (snd (snd (send_loop cl media message ms i (map JStr rs) acc)))
           = enviados acc + (length rs - 1)
         \<and> fallidos (snd (snd (send_loop cl media message ms i (map JStr rs) acc)))
           = fallidos acc + 1
         \<and> failedNumbers (snd (snd (send_loop cl media message ms i (map JStr rs) acc)))
           = failedNumbers acc @ [(rs ! k, not_valid_reason)]"
  using assms
proof (induction rs arbitrary: i acc k)
  case Nil
  then show ?case by simp
next
  case (Cons r rs)
  let ?cm = "js_or (js_index ms i) (js_or (JStr message) (JStr []))"
  show ?case
  proof (cases k)
    case 0
    have a: "snd (attempt cl media ?cm r acc) = count_failed acc r not_valid_reason"
      using Cons.prems(2) 0 by (simp add: attempt_null)
    have "\<forall>j<length rs. \<exists>c. getNumberId cl (normalize_number (rs ! j)) = Returns (Some c)
             \<and> (\<forall>p. sendMessage cl c p = Returns ())"
      using Cons.prems(3) 0 by auto
    from send_loop_all_delivered [OF this, of media message ms "Suc i"
        "count_failed acc r not_valid_reason"]
    show ?thesis
      using 0 by (simp add: send_loop_Cons a count_fields del: send_loop.simps(2))
  next
    case (Suc k')
    from Cons.prems(3) Suc
    have "\<exists>c. getNumberId cl (normalize_number r) = Returns (Some c)
             \<and> (\<forall>p. sendMessage cl c p = Returns ())"
      by auto
    then have a: "snd (attempt cl media ?cm r acc) = count_sent acc"
      by (auto simp: attempt_delivers)
    have k': "k' < length rs" "getNumberId cl (normalize_number (rs ! k')) = Returns None"
      using Cons.prems(1,2) Suc by simp_all
    have others: "\<forall>j<length rs. j \<noteq> k' \<longrightarrow>
           (\<exists>c. getNumberId cl (normalize_number (rs ! j)) = Returns (Some c)
                \<and> (\<forall>p. sendMessage cl c p = Returns ()))"
    proof (intro allI impI)
      fix j assume "j < length rs" "j \<noteq> k'"
      then have "Suc j < length (r # rs)" "Suc j \<noteq> k"
        using Suc by simp_all
      from Cons.prems(3) [rule_format, OF this] show
        "\<exists>c. getNumberId cl (normalize_number (rs ! j)) = Returns (Some c)
                \<and> (\<forall>p. sendMessage cl c p = Returns ())"
        by simp
    qed
    from Cons.IH [OF k' others, of "Suc i" "count_sent acc"] show ?thesis
      using Suc k'(1) by (simp add: send_loop_Cons a count_fields del: send_loop.simps(2))
  qed
qed

text \<open>
  Claim C2. In a dispatch over recipients \<open>rs\<close> (strings), the loop runs to its end
  and calls \<open>getNumberId\<close> once for every recipient, in input order, whatever
  happened to the recipients before. Every recipient is counted as sent or as failed, the
  failure list has one entry per failure, and a recipient for which \<open>getNumberId\<close>
  returns \<open>null\<close> is in the failure list with the reason for an unregistered number
  (the source's text is \<open>Not a valid WhatsApp number\<close>). When recipient \<open>k\<close> is the
  only one that fails, by not resolving, the counts are \<open>length rs - 1\<close> sent and one
  failed, and the failure list holds exactly recipient \<open>k\<close>; for three recipients and
  \<open>k = 1\<close> this is sent 2, failed 1.
\<close>

theorem partial_failure_aggregation:
  assumes "send_loop cl media message ms 0 (map JStr rs) empty_summary = (finished, acts, acc)"
  shows "finished
     \<and> filter is_resolve acts = map (\<lambda>r. Resolve (normalize_number r)) rs
     \<and> enviados acc + fallidos acc = length rs
     \<and> length (failedNumbers acc) = fallidos acc
     \<and> (\<forall>k<length rs. getNumberId cl (normalize_number (rs ! k)) = Returns None
           \<longrightarrow> (rs ! k, not_valid_reason) \<in> set (failedNumbers acc))
     \<and> (\<forall>k<length rs.
           getNumberId cl (normalize_number (rs ! k)) = Returns None
           \<and> (\<forall>j<length rs. j \<noteq> k \<longrightarrow>
                 (\<exists>c. getNumberId cl (normalize_number (rs ! j)) = Returns (Some c)
                      \<and> (\<forall>p. sendMessage cl c p = Returns ())))
           \<longrightarrow> enviados acc = length rs - 1 \<and> fallidos acc = 1
               \<and> failedNumbers acc = [(rs ! k, not_valid_reason)])"
proof -
  have f: "finished = fst (send_loop cl media message ms 0 (map JStr rs) empty_summary)"
    and a: "acts = fst (snd (send_loop cl media message ms 0 (map JStr rs) empty_summary))"
    and s: "acc = snd (snd (send_loop cl media message ms 0 (map JStr rs) empty_summary))"
    using assms by simp_all
  have e: "enviados empty_summary = 0" "fallidos empty_summary = 0"
    "failedNumbers empty_summary = []"
    by (simp_all add: empty_summary_def)
  have 1: finished
    unfolding f by (rule send_loop_finishes)
  have 2: "filter is_resolve acts = map (\<lambda>r. Resolve (normalize_number r)) rs"
    unfolding a by (rule send_loop_resolves)
  have 3: "enviados acc + fallidos acc = length rs"
    unfolding s using send_loop_total [OF send_loop_finishes, of cl media message ms 0 rs
        empty_summary]
    by (simp add: e)
  have 4: "length (failedNumbers acc) = fallidos acc"
    unfolding s using send_loop_failures [of cl media message ms 0 rs empty_summary]
    by (simp add: e)
  have 5: "\<forall>k<length rs. getNumberId cl (normalize_number (rs ! k)) = Returns None
           \<longrightarrow> (rs ! k, not_valid_reason) \<in> set (failedNumbers acc)"
    unfolding s by (simp add: send_loop_records_null)
  have 6: "\<forall>k<length rs.
           getNumberId cl (normalize_number (rs ! k)) = Returns None
           \<and> (\<forall>j<length rs. j \<noteq> k \<longrightarrow>
                 (\<exists>c. getNumberId cl (normalize_number (rs ! j)) = Returns (Some c)
                      \<and> (\<forall>p. sendMessage cl c p = Returns ())))
           \<longrightarrow> enviados acc = length rs - 1 \<and> fallidos acc = 1
               \<and> failedNumbers acc = [(rs ! k, not_valid_reason)]"
  proof (intro allI impI)
    fix k assume k: "k < length rs" and h: "getNumberId cl (normalize_number (rs ! k)) = Returns None
           \<and> (\<forall>j<length rs. j \<noteq> k \<longrightarrow>
                 (\<exists>c. getNumberId cl (normalize_number (rs ! j)) = Returns (Some c)
                      \<and> (\<forall>p. sendMessage cl c p = Returns ())))"
    from send_loop_one_null [OF k h [THEN conjunct1] h [THEN conjunct2], of media message ms 0
        empty_summary]
    show "enviados acc = length rs - 1 \<and> fallidos acc = 1
               \<and> failedNumbers acc = [(rs ! k, not_valid_reason)]"
      unfolding s by (simp add: e)
  qed
  show ?thesis
    by (intro conjI) (rule 1 2 3 4 5 6)+
qed


lemma demo_numbers:
  "normalize_number ''71234567'' = ''59171234567''"
  "normalize_number ''7222-2222'' = ''59172222222''"
  "normalize_number ''+591 73333333'' = ''59173333333''"
  by (simp_all add: normalize_number_def strip_non_digits_def is_digit_def digits_def
      starts_with_def default_prefix_def)

theorem partial_failure_aggregation_witness:
  "send_loop demo_client False ''hola'' [] 0
       (map JStr [''71234567'', ''7222-2222'', ''+591 73333333'']) empty_summary
     = (True,
        [Resolve ''59171234567'', Send ''59171234567@c.us'' (TextPayload (JStr ''hola'')),
         Resolve ''59172222222'',
         Resolve ''59173333333'', Send ''59173333333@c.us'' (TextPayload (JStr ''hola''))],
        \<lparr> enviados = 2, fallidos = 1,
          failedNumbers = [(''7222-2222'', ''Not a valid WhatsApp number'')] \<rparr>)
   \<and> getNumberId demo_client (normalize_number ''7222-2222'') = Returns None
   \<and> getNumberId demo_client (normalize_number ''71234567'')
        = Returns (Some ''59171234567@c.us'')
   \<and> getNumberId demo_client (normalize_number ''+591 73333333'')
        = Returns (Some ''59173333333@c.us'')
   \<and> sendMessage demo_client ''59171234567@c.us'' (TextPayload (JStr ''hola'')) = Returns ()
   \<and> not_valid_reason = ''Not a valid WhatsApp number''"
proof -
  let ?rs = "[''71234567'', ''7222-2222'', ''+591 73333333'']"
  let ?acts = "[Resolve ''59171234567'', Send ''59171234567@c.us'' (TextPayload (JStr ''hola'')),
         Resolve ''59172222222'',
         Resolve ''59173333333'', Send ''59173333333@c.us'' (TextPayload (JStr ''hola''))]"
  obtain finished acts acc where
    run: "send_loop demo_client False ''hola'' [] 0 (map JStr ?rs) empty_summary
            = (finished, acts, acc)"
    by (rule prod_cases3)
  note th = partial_failure_aggregation [OF run]
  have null: "getNumberId demo_client (normalize_number (?rs ! 1)) = Returns None"
    by (simp add: demo_numbers demo_client_def)
  have others: "\<forall>j<length ?rs. j \<noteq> 1 \<longrightarrow>
      (\<exists>c. getNumberId demo_client (normalize_number (?rs ! j)) = Returns (Some c)
           \<and> (\<forall>p. sendMessage demo_client c p = Returns ()))"
    by (simp add: All_less_Suc demo_numbers demo_client_def)
  have k: "1 < length ?rs"
    by simp
  from th [THEN conjunct2, THEN conjunct2, THEN conjunct2, THEN conjunct2, THEN conjunct2,
      rule_format, OF k conjI [OF null others]]
  have counts: "enviados acc = 2" "fallidos acc = 1"
    "failedNumbers acc = [(''7222-2222'', not_valid_reason)]"
    by simp_all
  then have acc: "acc = \<lparr> enviados = 2, fallidos = 1,
          failedNumbers = [(''7222-2222'', ''Not a valid WhatsApp number'')] \<rparr>"
    by (simp add: not_valid_reason_def)
  have fin: "finished"
    by (rule th [THEN conjunct1])
  have "acts = fst (snd (send_loop demo_client False ''hola'' [] 0 (map JStr ?rs) empty_summary))"
    using run by simp
  also have "\<dots> = ?acts"
    by (simp add: send_loop_Cons attempt_def demo_numbers demo_client_def js_or_def js_index_def
        del: send_loop.simps(2))
  finally have acts: "acts = ?acts" .
  have 1: "send_loop demo_client False ''hola'' [] 0 (map JStr ?rs) empty_summary
     = (True, ?acts, \<lparr> enviados = 2, fallidos = 1,
          failedNumbers = [(''7222-2222'', ''Not a valid WhatsApp number'')] \<rparr>)"
    using run fin acts acc by simp
  have 2: "getNumberId demo_client (normalize_number ''7222-2222'') = Returns None"
    using null by simp
  have 3: "getNumberId demo_client (normalize_number ''71234567'')
        = Returns (Some ''59171234567@c.us'')"
    "getNumberId demo_client (normalize_number ''+591 73333333'')
        = Returns (Some ''59173333333@c.us'')"
    "sendMessage demo_client ''59171234567@c.us'' (TextPayload (JStr ''hola'')) = Returns ()"
    by (simp_all add: demo_numbers demo_client_def)
  have 4: "not_valid_reason = ''Not a valid WhatsApp number''"
    by (rule not_valid_reason_def)
  show ?thesis
    by (intro conjI) (rule 1 2 3 4)+
qed

section \<open>Runs of the handler\<close>

lemma parse_lists_numbers:
  "parse_lists req = Some (numbersRaw, mensajes)
     \<Longrightarrow> req_numbers req = Some (JArr numbersRaw) \<and> length mensajes = length numbersRaw"
  by (auto simp: parse_lists_def Let_def split: option.splits jsval.splits if_splits)

lemma report_is_loop:
  assumes "report (send_messages cl st req now now') = Some (finished, sm)"
  shows "\<exists>numbersRaw mensajes media.
           parse_lists req = Some (numbersRaw, mensajes)
           \<and> finished = fst (send_loop cl media (req_message req) mensajes 0 numbersRaw
                                empty_summary)
           \<and> sm = snd (snd (send_loop cl media (req_message req) mensajes 0 numbersRaw
                                empty_summary))"
  using assms
  by (auto simp: send_messages_def Let_def case_prod_beta uncaught_def
      split: if_splits option.splits prod.splits bool.splits)

lemma one_ready_facts:
  "getSession one_ready ''a'' \<noteq> None"
  "getSessionStatus one_ready ''a'' = Ready"
  "\<not> map_has (sessionLocks one_ready) ''a''"
  by (simp_all add: one_ready_def getSession_def getSessionStatus_def map_get_def map_has_def)

lemma bad_json_run:
  "actions (send_messages demo_client one_ready bad_json_request 5 6)
     = [UnlinkMedia, ReleaseLock, Respond 400]"
  by (simp add: Let_def send_messages_def bad_json_request_def one_ready_facts acquireLock_def
      parse_lists_def unlink_media_def unlinkSync_throws_def unlink_async_def uncaught_def)

lemma number_run:
  "actions (send_messages demo_client one_ready number_request 5 6)
     = [Respond 200, TouchActivity,
        Resolve ''59171234567'', Send ''59171234567@c.us'' (MediaPayload (JStr ''hola'')),
        LogFailure ''Error in message sending process'', UnlinkMedia, ReleaseLock]"
  "report (send_messages demo_client one_ready number_request 5 6)
     = Some (False, \<lparr> enviados = 1, fallidos = 0, failedNumbers = [] \<rparr>)"
  by (simp_all add: Let_def send_messages_def number_request_def one_ready_facts acquireLock_def
      parse_lists_def unlink_media_def unlinkSync_throws_def unlink_async_def uncaught_def
      attempt_def demo_numbers demo_client_def js_or_def
      js_index_def empty_summary_def count_sent_def)

lemma silent_run:
  "actions (send_messages demo_client one_ready silent_request 5 6)
     = [LogFailure ''Error processing media file'', UnlinkMedia, Respond 200, TouchActivity,
        Resolve ''59171234567'', UnlinkMedia, ReleaseLock]"
  "report (send_messages demo_client one_ready silent_request 5 6)
     = Some (True, \<lparr> enviados = 1, fallidos = 0, failedNumbers = [] \<rparr>)"
  by (simp_all add: Let_def send_messages_def silent_request_def one_ready_facts acquireLock_def
      parse_lists_def unlink_media_def unlinkSync_throws_def unlink_async_def uncaught_def
      attempt_def demo_numbers demo_client_def js_or_def
      js_index_def empty_summary_def count_sent_def)

section \<open>Sent and failed counts\<close>

text \<open>
  Claim C10. When \<open>getNumberId\<close> returns an id, no media was loaded and the message
  of the recipient is empty, the loop makes no \<open>sendMessage\<close> call and still
  increments \<open>enviados\<close>. Every attempt increments exactly one of \<open>enviados\<close> and
  \<open>fallidos\<close>, by one. So when the loop has run to its end the two counters add up to
  the number of recipients, in the loop and in the report of the request. A recipient
  that resolves and whose send, if one is made, returns is counted as sent; one whose
  send throws is counted as failed.
\<close>

theorem sent_plus_failed_is_total:
  "(getNumberId cl (normalize_number r) = Returns (Some c) \<and> \<not> media \<and> \<not> truthy cm
      \<longrightarrow> attempt cl media cm r acc = ([Resolve (normalize_number r)], count_sent acc)
          \<and> enviados (count_sent acc) = enviados acc + 1)
   \<and> (enviados (snd (attempt cl media cm r acc)) = enviados acc + 1
        \<and> fallidos (snd (attempt cl media cm r acc)) = fallidos acc
      \<or> enviados (snd (attempt cl media cm r acc)) = enviados acc
        \<and> fallidos (snd (attempt cl media cm r acc)) = fallidos acc + 1)
   \<and> (fst (send_loop cl media message ms 0 ns empty_summary)
      \<longrightarrow> enviados (snd (snd (send_loop cl media message ms 0 ns empty_summary)))
            + fallidos (snd (snd (send_loop cl media message ms 0 ns empty_summary)))
          = length ns)
   \<and> (\<forall>sm. report (send_messages cl st req now now') = Some (True, sm)
      \<longrightarrow> (\<exists>numbersRaw. req_numbers req = Some (JArr numbersRaw)
              \<and> enviados sm + fallidos sm = length numbersRaw))
   \<and> (getNumberId cl (normalize_number r) = Returns (Some c)
        \<and> (\<forall>p. sendMessage cl c p = Returns ())
      \<longrightarrow> snd (attempt cl media cm r acc) = count_sent acc)"
proof -
  have 5: "getNumberId cl (normalize_number r) = Returns (Some c)
        \<and> (\<forall>p. sendMessage cl c p = Returns ())
      \<longrightarrow> snd (attempt cl media cm r acc) = count_sent acc"
    by (simp add: attempt_delivers)
  have 1: "getNumberId cl (normalize_number r) = Returns (Some c) \<and> \<not> media \<and> \<not> truthy cm
      \<longrightarrow> attempt cl media cm r acc = ([Resolve (normalize_number r)], count_sent acc)
          \<and> enviados (count_sent acc) = enviados acc + 1"
    by (simp add: attempt_nothing_to_send count_fields)
  have 2: "enviados (snd (attempt cl media cm r acc)) = enviados acc + 1
        \<and> fallidos (snd (attempt cl media cm r acc)) = fallidos acc
      \<or> enviados (snd (attempt cl media cm r acc)) = enviados acc
        \<and> fallidos (snd (attempt cl media cm r acc)) = fallidos acc + 1"
    using attempt_counts_once [of cl media cm r acc] by (auto simp: count_fields)
  have total: "fst (send_loop cl m message ms 0 ns empty_summary)
      \<longrightarrow> enviados (snd (snd (send_loop cl m message ms 0 ns empty_summary)))
            + fallidos (snd (snd (send_loop cl m message ms 0 ns empty_summary)))
          = length ns" for m message ms ns
    using send_loop_total [of cl m message ms 0 ns empty_summary]
    by (simp add: empty_summary_def)
  have 4: "\<forall>sm. report (send_messages cl st req now now') = Some (True, sm)
      \<longrightarrow> (\<exists>numbersRaw. req_numbers req = Some (JArr numbersRaw)
              \<and> enviados sm + fallidos sm = length numbersRaw)"
  proof (intro allI impI)
    fix sm
    assume "report (send_messages cl st req now now') = Some (True, sm)"
    from report_is_loop [OF this] obtain numbersRaw mensajes m where
      p: "parse_lists req = Some (numbersRaw, mensajes)"
      and f: "fst (send_loop cl m (req_message req) mensajes 0 numbersRaw empty_summary)"
      and s: "sm = snd (snd (send_loop cl m (req_message req) mensajes 0 numbersRaw
                                empty_summary))"
      by auto
    from total [rule_format, OF f] parse_lists_numbers [OF p] s
    show "\<exists>numbersRaw. req_numbers req = Some (JArr numbersRaw)
              \<and> enviados sm + fallidos sm = length numbersRaw"
      by simp
  qed
  show ?thesis
    by (intro conjI) (rule 1 2 total 4 5)+
qed

theorem sent_plus_failed_is_total_witness:
  "getNumberId demo_client (normalize_number ''71234567'') = Returns (Some ''59171234567@c.us'')
   \<and> \<not> truthy (JStr [])
   \<and> attempt demo_client False (JStr []) ''71234567'' empty_summary
        = ([Resolve ''59171234567''], \<lparr> enviados = 1, fallidos = 0, failedNumbers = [] \<rparr>)
   \<and> fst (send_loop demo_client False [] [] 0 [JStr ''71234567''] empty_summary)
   \<and> actions (send_messages demo_client one_ready silent_request 5 6)
        = [LogFailure ''Error processing media file'', UnlinkMedia, Respond 200, TouchActivity,
           Resolve ''59171234567'', UnlinkMedia, ReleaseLock]
   \<and> report (send_messages demo_client one_ready silent_request 5 6)
        = Some (True, \<lparr> enviados = 1, fallidos = 0, failedNumbers = [] \<rparr>)
   \<and> req_numbers silent_request = Some (JArr [JStr ''71234567''])
   \<and> enviados \<lparr> enviados = 1, fallidos = 0, failedNumbers = [] \<rparr>
        + fallidos \<lparr> enviados = 1, fallidos = 0, failedNumbers = [] \<rparr>
        = length [JStr ''71234567'']"
proof -
  note th = sent_plus_failed_is_total [of demo_client "''71234567''" "''59171234567@c.us''"
      False "JStr []" empty_summary "[]" "[]" "[JStr ''71234567'']" one_ready silent_request 5 6]
  have 1: "getNumberId demo_client (normalize_number ''71234567'')
             = Returns (Some ''59171234567@c.us'')"
    by (simp add: demo_numbers demo_client_def)
  have 2: "\<not> truthy (JStr [])"
    by simp
  have "attempt demo_client False (JStr []) ''71234567'' empty_summary
        = ([Resolve (normalize_number ''71234567'')], count_sent empty_summary)"
    using th [THEN conjunct1] 1 2 by simp
  then have 3: "attempt demo_client False (JStr []) ''71234567'' empty_summary
        = ([Resolve ''59171234567''], \<lparr> enviados = 1, fallidos = 0, failedNumbers = [] \<rparr>)"
    by (simp add: demo_numbers count_sent_def empty_summary_def)
  have 4: "fst (send_loop demo_client False [] [] 0 [JStr ''71234567''] empty_summary)"
    by (simp add: case_prod_beta)
  have 7: "req_numbers silent_request = Some (JArr [JStr ''71234567''])"
    by (simp add: silent_request_def)
  have "\<exists>numbersRaw. req_numbers silent_request = Some (JArr numbersRaw)
          \<and> enviados \<lparr> enviados = 1, fallidos = 0, failedNumbers = [] \<rparr>
             + fallidos \<lparr> enviados = 1, fallidos = 0, failedNumbers = [] \<rparr> = length numbersRaw"
    by (rule th [THEN conjunct2, THEN conjunct2, THEN conjunct2, THEN conjunct1, rule_format])
       (rule silent_run(2))
  then have 8: "enviados \<lparr> enviados = 1, fallidos = 0, failedNumbers = [] \<rparr>
        + fallidos \<lparr> enviados = 1, fallidos = 0, failedNumbers = [] \<rparr>
        = length [JStr ''71234567'']"
    by (simp add: 7)
  show ?thesis
    by (intro conjI) (rule 1 2 3 4 silent_run 7 8)+
qed

section \<open>Release of the session lock\<close>

lemma acquire_free:
  "\<not> map_has (sessionLocks st) u \<Longrightarrow>
     acquireLock st u now = (True, st\<lparr>sessionLocks := map_set (sessionLocks st) u now\<rparr>)"
  by (simp add: acquireLock_def)

lemma release_after_acquire:
  "\<not> map_has (sessionLocks (releaseLock (st\<lparr>sessionLocks := map_set (sessionLocks st) u now\<rparr>) u)) u"
  "\<not> map_has (sessionLocks (releaseLock
        (updateActivity (st\<lparr>sessionLocks := map_set (sessionLocks st) u now\<rparr>) u now') u)) u"
  by (simp_all add: releaseLock_def updateActivity_def map_has_delete)

lemma attempt_no_release: "ReleaseLock \<notin> set (fst (attempt cl media cm r acc))"
  by (simp add: attempt_def Let_def split: outcome.splits option.splits)

lemma send_loop_no_release:
  "ReleaseLock \<notin> set (fst (snd (send_loop cl media message ms i ns acc)))"
proof (induction ns arbitrary: i acc)
  case Nil
  then show ?case by simp
next
  case (Cons n ns)
  then show ?case
    by (cases n) (simp_all add: send_loop_Cons attempt_no_release del: send_loop.simps(2))
qed

text \<open>
  Where the lock is released. With the lock acquired, every path on which
  \<open>fs.unlinkSync\<close> does not throw releases it: a rejection after removing the file and
  before the 400 response, the background task as its last action, after the
  \<open>fs.unlink\<close> of \<open>finally\<close>, whether that removal fails or not and whether the loop
  ran to its end or not. The one path that keeps the lock is a rejection whose
  \<open>fs.unlinkSync\<close> throws.
\<close>

lemma lock_released_unless_unlinkSync_throws:
  assumes "req_userId req \<noteq> []"
    and "getSession st (req_userId req) \<noteq> None"
    and "getSessionStatus st (req_userId req) = Ready"
    and "\<not> map_has (sessionLocks st) (req_userId req)"
  shows "fst (acquireLock st (req_userId req) now)
     \<and> (response (send_messages cl st req now now') = None
          \<and> unlinkSync_throws req
          \<and> map_has (sessionLocks (final (send_messages cl st req now now'))) (req_userId req)
          \<and> ReleaseLock \<notin> set (actions (send_messages cl st req now now'))
        \<or> response (send_messages cl st req now now') = Some 400
          \<and> \<not> map_has (sessionLocks (final (send_messages cl st req now now'))) (req_userId req)
          \<and> actions (send_messages cl st req now now')
              = unlink_media req @ [ReleaseLock, Respond 400]
          \<and> report (send_messages cl st req now now') = None
        \<or> response (send_messages cl st req now now') = Some 200
          \<and> \<not> map_has (sessionLocks (final (send_messages cl st req now now'))) (req_userId req)
          \<and> (\<exists>pre. actions (send_messages cl st req now now')
                      = pre @ unlink_async req @ [ReleaseLock]
                    \<and> Respond 200 \<in> set pre \<and> ReleaseLock \<notin> set pre)
          \<and> report (send_messages cl st req now now') \<noteq> None)"
proof -
  let ?u = "req_userId req"
  let ?st1 = "st\<lparr>sessionLocks := map_set (sessionLocks st) ?u now\<rparr>"
  let ?r = "send_messages cl st req now now'"
  let ?goal = "fst (acquireLock st ?u now)
     \<and> (response ?r = None \<and> unlinkSync_throws req
          \<and> map_has (sessionLocks (final ?r)) ?u \<and> ReleaseLock \<notin> set (actions ?r)
        \<or> response ?r = Some 400 \<and> \<not> map_has (sessionLocks (final ?r)) ?u
          \<and> actions ?r = unlink_media req @ [ReleaseLock, Respond 400] \<and> report ?r = None
        \<or> response ?r = Some 200 \<and> \<not> map_has (sessionLocks (final ?r)) ?u
          \<and> (\<exists>pre. actions ?r = pre @ unlink_async req @ [ReleaseLock]
                    \<and> Respond 200 \<in> set pre \<and> ReleaseLock \<notin> set pre)
          \<and> report ?r \<noteq> None)"
  have acq: "acquireLock st ?u now = (True, ?st1)"
    using assms(4) by (rule acquire_free)
  have held: "map_has (sessionLocks ?st1) ?u"
    by (simp add: map_has_set)
  have rejected: ?goal
    if "?r = (if unlinkSync_throws req then uncaught ?st1
              else \<lparr> response = Some 400,
                     actions = unlink_media req @ [ReleaseLock, Respond 400],
                     final = releaseLock ?st1 ?u, report = None \<rparr>)"
  proof (cases "unlinkSync_throws req")
    case True
    then have "?r = uncaught ?st1"
      using that by simp
    then show ?thesis
      using acq True held by (simp add: uncaught_def)
  next
    case False
    then have "?r = \<lparr> response = Some 400,
                     actions = unlink_media req @ [ReleaseLock, Respond 400],
                     final = releaseLock ?st1 ?u, report = None \<rparr>"
      using that by simp
    then show ?thesis
      using acq False by (simp add: release_after_acquire)
  qed
  show ?goal
  proof (cases "parse_lists req")
    case None
    then have "?r = (if unlinkSync_throws req then uncaught ?st1
              else \<lparr> response = Some 400,
                     actions = unlink_media req @ [ReleaseLock, Respond 400],
                     final = releaseLock ?st1 ?u, report = None \<rparr>)"
      using assms(1,3,4) acq by (simp add: send_messages_def Let_def assms(2))
    then show ?thesis by (rule rejected)
  next
    case (Some p)
    obtain numbersRaw mensajes where p: "p = (numbersRaw, mensajes)"
      by (cases p)
    show ?thesis
    proof (cases "(req_message req = [] \<and> req_mediaFile req = None) \<or> numbersRaw = []")
      case True
      then have "?r = (if unlinkSync_throws req then uncaught ?st1
              else \<lparr> response = Some 400,
                     actions = unlink_media req @ [ReleaseLock, Respond 400],
                     final = releaseLock ?st1 ?u, report = None \<rparr>)"
        using assms(1,3,4) acq Some p by (auto simp: send_messages_def Let_def assms(2))
      then show ?thesis by (rule rejected)
    next
      case False
      define media where "media = (case req_mediaFile req of None \<Rightarrow> False | Some f \<Rightarrow> readable f)"
      define a0 where "a0 = (case req_mediaFile req of
                               None \<Rightarrow> []
                             | Some f \<Rightarrow>
                                 if readable f then []
                                 else [LogFailure ''Error processing media file'', UnlinkMedia]
                                      @ (if unlink_throws f
                                         then [LogFailure ''Error deleting failed media file'']
                                         else []))"
      define loop where
        "loop = send_loop cl media (req_message req) mensajes 0 numbersRaw empty_summary"
      define a2 where "a2 = (if fst loop then []
                             else [LogFailure ''Error in message sending process''])"
      define pre where "pre = a0 @ [Respond 200, TouchActivity] @ fst (snd loop) @ a2"
      have r: "?r = \<lparr> response = Some 200, actions = pre @ unlink_async req @ [ReleaseLock],
                       final = releaseLock (updateActivity ?st1 ?u now') ?u,
                       report = Some (fst loop, snd (snd loop)) \<rparr>"
        using assms(1,3,4) acq Some p False
        by (auto simp: send_messages_def Let_def case_prod_beta media_def a0_def loop_def a2_def
            pre_def assms(2))
      have "ReleaseLock \<notin> set a0" "ReleaseLock \<notin> set a2"
        by (simp_all add: a0_def a2_def split: option.splits)
      moreover have "ReleaseLock \<notin> set (fst (snd loop))"
        unfolding loop_def by (rule send_loop_no_release)
      ultimately have "Respond 200 \<in> set pre \<and> ReleaseLock \<notin> set pre"
        by (simp add: pre_def)
      then have "\<exists>pre. actions ?r = pre @ unlink_async req @ [ReleaseLock]
                    \<and> Respond 200 \<in> set pre \<and> ReleaseLock \<notin> set pre"
        unfolding r by auto
      then show ?thesis
        using acq by (simp add: r release_after_acquire)
    qed
  qed
qed

lemma lock_released_examples:
  "actions (send_messages demo_client one_ready bad_json_request 5 6)
        = [UnlinkMedia, ReleaseLock, Respond 400]
   \<and> \<not> map_has (sessionLocks (final (send_messages demo_client one_ready bad_json_request 5 6)))
         ''a''
   \<and> report (send_messages demo_client one_ready number_request 5 6)
        = Some (False, \<lparr> enviados = 1, fallidos = 0, failedNumbers = [] \<rparr>)
   \<and> actions (send_messages demo_client one_ready number_request 5 6)
        = [Respond 200, TouchActivity,
           Resolve ''59171234567'', Send ''59171234567@c.us'' (MediaPayload (JStr ''hola'')),
           LogFailure ''Error in message sending process'', UnlinkMedia, ReleaseLock]
   \<and> \<not> map_has (sessionLocks (final (send_messages demo_client one_ready number_request 5 6)))
         ''a''"
  by (simp add: bad_json_run number_run)
     (simp add: Let_def send_messages_def bad_json_request_def number_request_def
        one_ready_facts acquireLock_def parse_lists_def unlinkSync_throws_def releaseLock_def
        updateActivity_def map_has_delete case_prod_beta)

text \<open>
  Claim C3, evaluated on the code. Session \<open>a\<close> is ready and not locked. A request
  for \<open>a\<close> with an uploaded file and a \<open>numbers\<close> field that is not valid JSON
  acquires the lock and reaches the \<open>catch\<close> of the parsing block, which runs
  \<open>fs.unlinkSync(mediaFile.path)\<close> before \<open>releaseLock\<close>. The file is gone,
  \<open>fs.unlinkSync\<close> throws, and the handler is left there: \<open>releaseLock\<close> is never
  called, no response is sent, the lock token of \<open>a\<close> stays, and a later dispatch
  for \<open>a\<close> that finds this state is answered with 429.
\<close>

theorem lock_kept_when_unlinkSync_throws:
  "req_userId stuck_request = ''a''
   \<and> getSession one_ready ''a'' = Some client1
   \<and> getSessionStatus one_ready ''a'' = Ready
   \<and> \<not> map_has (sessionLocks one_ready) ''a''
   \<and> parse_lists stuck_request = None
   \<and> unlinkSync_throws stuck_request
   \<and> send_messages demo_client one_ready stuck_request 5 6
       = \<lparr> response = None, actions = [UnlinkMedia, Uncaught],
           final = one_ready\<lparr> sessionLocks := [(''a'', 5)] \<rparr>, report = None \<rparr>
   \<and> map_has (sessionLocks (final (send_messages demo_client one_ready stuck_request 5 6))) ''a''
   \<and> ReleaseLock \<notin> set (actions (send_messages demo_client one_ready stuck_request 5 6))
   \<and> response (send_messages demo_client
                 (final (send_messages demo_client one_ready stuck_request 5 6))
                 three_request 7 8) = Some 429"
proof -
  have r: "send_messages demo_client one_ready stuck_request 5 6
       = \<lparr> response = None, actions = [UnlinkMedia, Uncaught],
           final = one_ready\<lparr> sessionLocks := [(''a'', 5)] \<rparr>, report = None \<rparr>"
    by (simp add: Let_def send_messages_def stuck_request_def one_ready_facts acquireLock_def
        parse_lists_def unlinkSync_throws_def uncaught_def)
       (simp add: one_ready_def map_set_def)
  have s: "getSession one_ready ''a'' = Some client1"
    by (simp add: one_ready_def getSession_def map_get_def)
  have p: "parse_lists stuck_request = None" "unlinkSync_throws stuck_request"
    "req_userId stuck_request = ''a''"
    by (simp_all add: parse_lists_def stuck_request_def unlinkSync_throws_def)
  have busy: "response (send_messages demo_client (one_ready\<lparr> sessionLocks := [(''a'', 5)] \<rparr>)
                three_request 7 8) = Some 429"
    by (simp add: Let_def send_messages_def three_request_def acquireLock_def
        unlinkSync_throws_def unlink_media_def)
       (simp add: one_ready_def getSession_def getSessionStatus_def map_get_def map_has_def)
  show ?thesis
    unfolding r using s p busy one_ready_facts(2,3)
    by (simp add: map_has_def)
qed

end
